theory Spec2Isabelle
  imports Complex_Main "HOL-Library.Word" "HOL-Library.AList"
begin

section \<open>Values, errors and effects\<close>

text \<open>
  The server of \<^verbatim>\<open>TerminalServer.py\<close> handles JSON values decoded by \<^verbatim>\<open>json.loads\<close>; a
  decoded value is modelled by the datatype \<open>json\<close> (an object is the list of its
  members, read with \<open>map_of\<close>). Text frames are HOL strings; only the ASCII opcode
  characters of a frame are ever inspected by the server.
\<close>

datatype json =
    JNull
  | JBool bool
  | JInt int
  | JFloat real
  | JString string
  | JArray "json list"
  | JObject "(string \<times> json) list"

text \<open>Every \<^verbatim>\<open>raise\<close> that the modelled code can reach is a value of \<open>error\<close>.\<close>

datatype error =
    KeyError
  | TypeError
  | JSONDecodeError
  | StructError
  | ConnectionClosed
  | UnicodeDecodeError

text \<open>
  A websocket is identified by a number. A frame handed to \<^verbatim>\<open>websocket.send\<close> is either a
  text (\<open>Text\<close>) or the serialisation \<^verbatim>\<open>json.dumps(v)\<close> of a value (\<open>Dumps v\<close>).
\<close>

type_synonym websocket = nat

datatype payload = Text string | Dumps json

text \<open>
  What the server does to the outside world is recorded, in program order, as a list of
  effects: a send scheduled on the event loop, a close of a websocket, a write to a PTY
  master, a \<^verbatim>\<open>TIOCSWINSZ\<close> ioctl with the four packed unsigned shorts, and a SIGTERM sent
  by \<^verbatim>\<open>os.kill\<close>. Calls of \<^verbatim>\<open>print\<close> are not recorded. The calls into the operating system
  (\<^verbatim>\<open>pty.fork\<close>, \<^verbatim>\<open>os.write\<close>, \<^verbatim>\<open>fcntl.ioctl\<close>, \<^verbatim>\<open>os.kill\<close>) are taken to succeed, and a send
  is only scheduled: it does not fail in the caller.
\<close>

datatype effect =
    Send websocket payload
  | Close websocket
  | Write int string
  | Ioctl int "16 word list"
  | Kill int

section \<open>The program state\<close>

text \<open>The fields of class \<^verbatim>\<open>Terminal\<close>.\<close>

record Terminal =
  sessionID :: string
  websocket :: websocket
  "open" :: bool
  connected :: bool
  subshellPID :: int
  ttyFd :: int

text \<open>
  The state holds the \<^verbatim>\<open>Terminal\<close> objects by identity (\<open>objects\<close>, with the identity
  \<open>next_obj\<close> of the next object to be constructed), the three fields of the global
  \<^verbatim>\<open>connectionDispatcher\<close> and the effects so far. The dictionary
  \<^verbatim>\<open>terminals\<close> maps a session id to a \<^verbatim>\<open>Terminal\<close> object and is iterated in insertion
  order, hence an association list of object identities; \<^verbatim>\<open>accessKeys\<close> maps a key to
  its expiry time; the set \<^verbatim>\<open>managementConnections\<close> is kept as a list without
  repetition, whose order stands for the order in which the set is iterated; the source
  does not fix that order.
\<close>

record state =
  objects :: "nat \<Rightarrow> Terminal"
  next_obj :: nat
  terminals :: "(string \<times> nat) list"
  accessKeys :: "string \<rightharpoonup> real"
  managementConnections :: "websocket list"
  effects :: "effect list"

text \<open>
  What the outside world supplies to the code: the decoder \<^verbatim>\<open>json.loads\<close>, the clock
  \<^verbatim>\<open>time.time()\<close>, the successive draws of \<^verbatim>\<open>secrets.token_bytes(4)\<close> (each four bytes,
  the first one most significant), the pair \<^verbatim>\<open>pty.fork()\<close> returns in the parent, and the
  command-line option \<^verbatim>\<open>--content-server-port\<close>.
\<close>

record env =
  json_loads :: "string \<Rightarrow> error + json"
  time_time :: real
  token_bytes4 :: "32 word list"
  pty_fork :: "int \<times> int"
  contentServerPort :: int

text \<open>How a call returning \<^verbatim>\<open>None\<close> ends: it returns, it raises, or it waits for ever.\<close>

datatype outcome = Returned | Raised error | Blocked

text \<open>What \<^verbatim>\<open>await websocket.recv()\<close> yields: a text frame, or \<^verbatim>\<open>ConnectionClosed\<close> is raised.\<close>

datatype received = Message string | Closed

definition emit :: "effect \<Rightarrow> state \<Rightarrow> state" where
  "emit e s = s\<lparr>effects := effects s @ [e]\<rparr>"

section \<open>Python membership in a dictionary with string keys\<close>

text \<open>
  \<^verbatim>\<open>x in d\<close> hashes \<open>x\<close>: a list or a dict raises \<^verbatim>\<open>TypeError\<close>; a string is looked up;
  any other decoded value is hashable and equals no string key.
\<close>

fun in_dict :: "json \<Rightarrow> (string \<rightharpoonup> 'v) \<Rightarrow> error + bool" where
  "in_dict (JString k) d = Inr (k \<in> dom d)"
| "in_dict (JArray xs) d = Inl TypeError"
| "in_dict (JObject ms) d = Inl TypeError"
| "in_dict v d = Inr False"

section \<open>Access keys\<close>

text \<open>\<^verbatim>\<open>binascii.hexlify\<close>: two lowercase hexadecimal digits for each byte.\<close>

definition hexdigit :: "nat \<Rightarrow> char" where
  "hexdigit n = ''0123456789abcdef'' ! (n mod 16)"

definition hexlify :: "8 word list \<Rightarrow> string" where
  "hexlify bs = concat (map (\<lambda>b. [hexdigit (unat b div 16), hexdigit (unat b mod 16)]) bs)"

text \<open>
  \<^verbatim>\<open>generateAccessKey\<close>: \<open>rnd\<close> is what \<^verbatim>\<open>secrets.token_bytes(1024)\<close> drew and
  \<open>now\<close> what \<^verbatim>\<open>time.time()\<close> returned.
\<close>

definition generateAccessKey :: "real \<Rightarrow> 8 word list \<Rightarrow> state \<Rightarrow> string \<times> state" where
  "generateAccessKey now rnd s =
     (let accessKey = hexlify rnd
      in (accessKey, s\<lparr>accessKeys := (accessKeys s)(accessKey \<mapsto> now + 3600)\<rparr>))"

text \<open>
  \<^verbatim>\<open>validateAccessKey\<close>: the first loop collects the expired keys, the second deletes
  them; then the key is looked up and, when present, deleted. The state is returned also
  when the lookup raises.
\<close>

definition validateAccessKey :: "real \<Rightarrow> json \<Rightarrow> state \<Rightarrow> (error + bool) \<times> state" where
  "validateAccessKey currentTime checkKey s =
     (let deleteKeys = {key. case accessKeys s key of None \<Rightarrow> False
                                | Some expire \<Rightarrow> expire < currentTime};
          s1 = s\<lparr>accessKeys := accessKeys s |` (- deleteKeys)\<rparr>
      in case in_dict checkKey (accessKeys s1) of
           Inl e \<Rightarrow> (Inl e, s1)
         | Inr True \<Rightarrow>
             (case checkKey of
                JString k \<Rightarrow> (Inr True, s1\<lparr>accessKeys := (accessKeys s1)(k := None)\<rparr>)
              | _ \<Rightarrow> (Inr True, s1))
         | Inr False \<Rightarrow> (Inr False, s1))"

text \<open>
  A history of the vault: keys are issued and consumed in any order, at any times; the
  results of the calls are dropped.
\<close>

datatype vault_op = Issue real "8 word list" | Consume real json

fun vault_step :: "state \<Rightarrow> vault_op \<Rightarrow> state" where
  "vault_step s (Issue now rnd) = snd (generateAccessKey now rnd s)"
| "vault_step s (Consume now key) = snd (validateAccessKey now key s)"

definition reissues :: "string \<Rightarrow> vault_op \<Rightarrow> bool" where
  "reissues k op = (case op of Issue now rnd \<Rightarrow> hexlify rnd = k | Consume now key \<Rightarrow> False)"

section \<open>Python operations on decoded values\<close>

text \<open>\<^verbatim>\<open>needle in haystack\<close> on strings: the needle occurs as a contiguous part.\<close>

primrec substr :: "string \<Rightarrow> string \<Rightarrow> bool" where
  "substr xs [] = (xs = [])"
| "substr xs (y # ys) = (take (length xs) (y # ys) = xs \<or> substr xs ys)"

text \<open>
  \<^verbatim>\<open>'name' in v\<close> for a decoded value \<open>v\<close>: key membership in a dict, element membership in
  a list, containment in a string, \<^verbatim>\<open>TypeError\<close> for a value that is not iterable.
\<close>

fun py_in :: "string \<Rightarrow> json \<Rightarrow> error + bool" where
  "py_in name (JObject ms) = Inr (name \<in> fst ` set ms)"
| "py_in name (JArray xs) = Inr (JString name \<in> set xs)"
| "py_in name (JString str) = Inr (substr name str)"
| "py_in name v = Inl TypeError"

text \<open>
  \<^verbatim>\<open>v['name']\<close>: the member of a dict or \<^verbatim>\<open>KeyError\<close>; \<^verbatim>\<open>TypeError\<close> for every other value
  (a list or a string is not indexed by a string, the others are not subscriptable).
\<close>

fun py_getitem :: "json \<Rightarrow> string \<Rightarrow> error + json" where
  "py_getitem (JObject ms) name =
     (case map_of ms name of None \<Rightarrow> Inl KeyError | Some v \<Rightarrow> Inr v)"
| "py_getitem v name = Inl TypeError"

text \<open>
  One \<^verbatim>\<open>H\<close> field of \<^verbatim>\<open>struct.pack\<close>: an integer (or a bool) in the range of an unsigned
  short; everything else raises \<^verbatim>\<open>struct.error\<close>.
\<close>

fun pack_H :: "json \<Rightarrow> error + 16 word" where
  "pack_H (JInt i) = (if 0 \<le> i \<and> i \<le> 65535 then Inr (word_of_int i) else Inl StructError)"
| "pack_H (JBool b) = Inr (if b then 1 else 0)"
| "pack_H v = Inl StructError"

text \<open>\<^verbatim>\<open>str\<close> of an integer, in decimal.\<close>

fun str_nat :: "nat \<Rightarrow> string" where
  "str_nat n = (if n < 10 then [''0123456789'' ! n]
                else str_nat (n div 10) @ [''0123456789'' ! (n mod 10)])"

definition str :: "int \<Rightarrow> string" where
  "str i = (if i < 0 then CHR ''-'' # str_nat (nat (- i)) else str_nat (nat i))"

section \<open>Class Terminal\<close>

text \<open>Storage that holds no constructed object yet.\<close>

definition blank :: Terminal where
  "blank = \<lparr>sessionID = [], websocket = 0, open = False, connected = False,
            subshellPID = 0, ttyFd = 0\<rparr>"

definition update_object :: "nat \<Rightarrow> (Terminal \<Rightarrow> Terminal) \<Rightarrow> state \<Rightarrow> state" where
  "update_object a f s = s\<lparr>objects := (objects s)(a := f (objects s a))\<rparr>"

text \<open>
  \<^verbatim>\<open>pushStateChange\<close> (a method of the dispatcher, called by the terminals): the open
  sessions of \<^verbatim>\<open>terminals\<close>, in the order of the dictionary, are serialised and the frame
  is sent to every management connection.
\<close>

definition poll_entries :: "state \<Rightarrow> json list" where
  "poll_entries s =
     map (\<lambda>(sessionID, terminal).
            JObject [(''sessionID'', JString sessionID),
                     (''connected'', JBool (connected (objects s terminal)))])
         (filter (\<lambda>(sessionID, terminal). open (objects s terminal)) (terminals s))"

definition poll_result :: "state \<Rightarrow> json" where
  "poll_result s =
     JObject [(''response'', JString ''poll''), (''result'', JArray (poll_entries s))]"

definition pushStateChange :: "state \<Rightarrow> state" where
  "pushStateChange s =
     (let response = Dumps (poll_result s)
      in fold (\<lambda>websocket. emit (Send websocket response)) (managementConnections s) s)"

text \<open>
  \<^verbatim>\<open>__init__\<close> with \<^verbatim>\<open>startTty\<close>, in the parent process: the object is constructed with
  \<^verbatim>\<open>connected = True\<close>; \<^verbatim>\<open>startTty\<close> stores what \<^verbatim>\<open>pty.fork()\<close> returned and sets
  \<^verbatim>\<open>open = True\<close>. The two threads it starts run as steps of the environment (below).
\<close>

definition startTty :: "nat \<Rightarrow> int \<times> int \<Rightarrow> state \<Rightarrow> state" where
  "startTty self forked s =
     update_object self
       (\<lambda>t. t\<lparr>subshellPID := fst forked, ttyFd := snd forked, open := True\<rparr>) s"

definition new_Terminal :: "string \<Rightarrow> websocket \<Rightarrow> int \<times> int \<Rightarrow> state \<Rightarrow> nat \<times> state" where
  "new_Terminal sid ws forked s =
     (let self = next_obj s;
          s1 = s\<lparr>objects := (objects s)(self := blank\<lparr>sessionID := sid, websocket := ws,
                                                       open := False, connected := True\<rparr>),
                 next_obj := Suc self\<rparr>
      in (self, startTty self forked s1))"

definition setNewConnection :: "nat \<Rightarrow> websocket \<Rightarrow> state \<Rightarrow> state" where
  "setNewConnection self ws s =
     update_object self (\<lambda>t. t\<lparr>websocket := ws, connected := True\<rparr>) s"

text \<open>\<^verbatim>\<open>resizeTerminal\<close>: \<^verbatim>\<open>struct.pack("HHHH", row, col, 0, 0)\<close>, then the ioctl.\<close>

definition resizeTerminal :: "nat \<Rightarrow> json \<Rightarrow> json \<Rightarrow> state \<Rightarrow> (error + unit) \<times> state" where
  "resizeTerminal self row col s =
     (case pack_H row of
        Inl e \<Rightarrow> (Inl e, s)
      | Inr r \<Rightarrow>
          (case pack_H col of
             Inl e \<Rightarrow> (Inl e, s)
           | Inr c \<Rightarrow> (Inr (), emit (Ioctl (ttyFd (objects s self)) [r, c, 0, 0]) s)))"

text \<open>\<^verbatim>\<open>send\<close>: the frame is scheduled on the event loop for the current websocket.\<close>

definition send :: "nat \<Rightarrow> string \<Rightarrow> state \<Rightarrow> state" where
  "send self data s = emit (Send (websocket (objects s self)) (Text data)) s"

text \<open>\<^verbatim>\<open>onClientInput\<close>.\<close>

definition onClientInput :: "env \<Rightarrow> nat \<Rightarrow> string \<Rightarrow> state \<Rightarrow> (error + unit) \<times> state" where
  "onClientInput E self message s =
     (if length message = 0 then (Inr (), s)
      else if hd message = CHR ''k'' then
        (Inr (), emit (Write (ttyFd (objects s self)) (tl message)) s)
      else if hd message = CHR ''r'' then
        (case json_loads E (tl message) of
           Inl e \<Rightarrow> (Inl e, s)
         | Inr dimensions \<Rightarrow>
             (case py_getitem dimensions ''rows'' of
                Inl e \<Rightarrow> (Inl e, s)
              | Inr rows \<Rightarrow>
                  (case py_getitem dimensions ''cols'' of
                     Inl e \<Rightarrow> (Inl e, s)
                   | Inr cols \<Rightarrow> resizeTerminal self rows cols s)))
      else (Inr (), s))"

text \<open>
  \<^verbatim>\<open>waitSubshell\<close>, from the moment \<^verbatim>\<open>os.waitpid\<close> has returned: \<^verbatim>\<open>open\<close> is cleared, the
  entry of the session id is deleted from \<^verbatim>\<open>terminals\<close> (\<^verbatim>\<open>KeyError\<close> when there is none)
  and the state change is pushed.
\<close>

definition waitSubshell :: "nat \<Rightarrow> state \<Rightarrow> outcome \<times> state" where
  "waitSubshell self s =
     (let s1 = update_object self (\<lambda>t. t\<lparr>open := False\<rparr>) s;
          sid = sessionID (objects s1 self)
      in if sid \<notin> fst ` set (terminals s1) then (Raised KeyError, s1)
         else (Returned, pushStateChange (s1\<lparr>terminals := AList.delete sid (terminals s1)\<rparr>)))"

text \<open>
  While a thread or coroutine is blocked in a call, reaper threads of some terminals
  may run; a suspension lists the objects whose \<^verbatim>\<open>waitSubshell\<close> ran meanwhile (an
  exception ends only that thread) and then gives what the blocking call yielded.
\<close>

definition reap :: "nat list \<Rightarrow> state \<Rightarrow> state" where
  "reap reaped s = fold (\<lambda>terminal s. snd (waitSubshell terminal s)) reaped s"

text \<open>
  \<^verbatim>\<open>listen\<close>. The loop ends because \<^verbatim>\<open>open\<close> is found false, because \<^verbatim>\<open>recv\<close> raised
  \<^verbatim>\<open>ConnectionClosed\<close> (caught: \<^verbatim>\<open>connected\<close> is cleared), or because \<^verbatim>\<open>onClientInput\<close>
  raised (not caught); with no further suspension it waits in \<^verbatim>\<open>recv\<close> for ever.
\<close>

datatype loop_end = NotOpen | RecvFailed | Escaped error | Waiting

fun listen_loop :: "env \<Rightarrow> nat \<Rightarrow> (nat list \<times> received) list \<Rightarrow> state \<Rightarrow> loop_end \<times> state" where
  "listen_loop E self [] s = (if open (objects s self) then (Waiting, s) else (NotOpen, s))"
| "listen_loop E self ((reaped, r) # evs) s =
     (if \<not> open (objects s self) then (NotOpen, s)
      else let s1 = reap reaped s in
        case r of
          Closed \<Rightarrow> (RecvFailed, update_object self (\<lambda>t. t\<lparr>connected := False\<rparr>) s1)
        | Message message \<Rightarrow>
            (case onClientInput E self message s1 of
               (Inl e, s2) \<Rightarrow> (Escaped e, s2)
             | (Inr u, s2) \<Rightarrow> listen_loop E self evs s2))"

definition listen :: "env \<Rightarrow> nat \<Rightarrow> (nat list \<times> received) list \<Rightarrow> state \<Rightarrow> outcome \<times> state" where
  "listen E self evs s =
     (let s1 = pushStateChange s;
          s2 = send self (sessionID (objects s1 self)) s1
      in case listen_loop E self evs s2 of
           (Escaped e, s3) \<Rightarrow> (Raised e, s3)
         | (Waiting, s3) \<Rightarrow> (Blocked, s3)
         | (ended, s3) \<Rightarrow> (Returned, pushStateChange s3))"

text \<open>
  \<^verbatim>\<open>pushTtyOutput\<close>, the output thread. A suspension of \<^verbatim>\<open>os.read\<close> yields the bytes read
  or an \<^verbatim>\<open>OSError\<close> (\<open>None\<close>); \<open>decode\<close> is \<^verbatim>\<open>bytes.decode('utf-8')\<close>. Every exception in the
  body is swallowed by the bare \<^verbatim>\<open>except\<close>.
\<close>

fun pushTtyOutput ::
  "(8 word list \<Rightarrow> error + string) \<Rightarrow> nat \<Rightarrow> (nat list \<times> 8 word list option) list \<Rightarrow> state
     \<Rightarrow> outcome \<times> state" where
  "pushTtyOutput decode self [] s =
     (if open (objects s self) then (Blocked, s) else (Returned, s))"
| "pushTtyOutput decode self ((reaped, r) # evs) s =
     (if \<not> open (objects s self) then (Returned, s)
      else let s1 = reap reaped s in
        case r of
          None \<Rightarrow> pushTtyOutput decode self evs s1
        | Some ttyOutput \<Rightarrow>
            (case decode ttyOutput of
               Inl e \<Rightarrow> pushTtyOutput decode self evs s1
             | Inr text \<Rightarrow> pushTtyOutput decode self evs (send self text s1)))"

section \<open>Class ConnectionDispatcher\<close>

definition allowedOrigins :: "env \<Rightarrow> string list" where
  "allowedOrigins E =
     [''http://localhost:'' @ str (contentServerPort E),
      ''https://localhost:'' @ str (contentServerPort E),
      ''http://127.0.0.1:'' @ str (contentServerPort E),
      ''https://127.0.0.1:'' @ str (contentServerPort E)]"

text \<open>\<^verbatim>\<open>secrets.token_hex(4)\<close> is \<open>hexlify\<close> of the four bytes drawn.\<close>

definition bytes4 :: "32 word \<Rightarrow> 8 word list" where
  "bytes4 w = [ucast (drop_bit 24 w), ucast (drop_bit 16 w), ucast (drop_bit 8 w), ucast w]"

text \<open>
  \<^verbatim>\<open>generateSessionID\<close>: the loop draws until the id is not a key of \<^verbatim>\<open>terminals\<close>; when
  the draws of the environment run out before that, the loop has not returned (\<open>None\<close>).
\<close>

fun generateSessionID :: "32 word list \<Rightarrow> state \<Rightarrow> string option" where
  "generateSessionID [] s = None"
| "generateSessionID (w # draws) s =
     (let sessionID = hexlify (bytes4 w)
      in if sessionID \<notin> fst ` set (terminals s) then Some sessionID
         else generateSessionID draws s)"

text \<open>
  \<^verbatim>\<open>sessionID in self.terminals\<close> together with \<^verbatim>\<open>self.terminals[sessionID]\<close>: hashing a
  list or a dict raises \<^verbatim>\<open>TypeError\<close>; a string is looked up; any other value is no key.
\<close>

fun lookup_terminal :: "json \<Rightarrow> state \<Rightarrow> error + nat option" where
  "lookup_terminal (JString k) s = Inr (map_of (terminals s) k)"
| "lookup_terminal (JArray xs) s = Inl TypeError"
| "lookup_terminal (JObject ms) s = Inl TypeError"
| "lookup_terminal v s = Inr None"

text \<open>\<^verbatim>\<open>terminalHandler\<close>.\<close>

definition terminalHandler ::
  "env \<Rightarrow> websocket \<Rightarrow> json \<Rightarrow> (nat list \<times> received) list \<Rightarrow> state \<Rightarrow> outcome \<times> state" where
  "terminalHandler E ws config evs s =
     (case py_in ''sessionID'' config of
        Inl e \<Rightarrow> (Raised e, s)
      | Inr False \<Rightarrow> (Returned, emit (Close ws) s)
      | Inr True \<Rightarrow>
          (case py_getitem config ''sessionID'' of
             Inl e \<Rightarrow> (Raised e, s)
           | Inr sessionID' \<Rightarrow>
               if sessionID' = JString ''new'' then
                 (case generateSessionID (token_bytes4 E) s of
                    None \<Rightarrow> (Blocked, s)
                  | Some sid \<Rightarrow>
                      (let (terminal, s1) = new_Terminal sid ws (pty_fork E) s;
                           s2 = s1\<lparr>terminals := AList.update sid terminal (terminals s1)\<rparr>
                       in listen E terminal evs s2))
               else
                 (case lookup_terminal sessionID' s of
                    Inl e \<Rightarrow> (Raised e, s)
                  | Inr None \<Rightarrow> (Returned, emit (Close ws) s)
                  | Inr (Some terminal) \<Rightarrow>
                      if \<not> connected (objects s terminal)
                      then listen E terminal evs (setNewConnection terminal ws s)
                      else (Returned, emit (Close ws) s))))"

text \<open>
  The body of the loop of \<^verbatim>\<open>managementHandler\<close> for one received message: \<open>Inr\<close> when the
  body ran to its end or reached a \<^verbatim>\<open>continue\<close>, \<open>Inl\<close> when an exception left the loop.
\<close>

definition kill_response :: "bool \<Rightarrow> json \<Rightarrow> json" where
  "kill_response success sessionID' =
     (if success
      then JObject [(''response'', JString ''kill''), (''result'', JString ''success''),
                    (''sessionID'', sessionID')]
      else JObject [(''response'', JString ''kill''), (''result'', JString ''error''),
                    (''sessionID'', sessionID'),
                    (''message'', JString ''sessionID not found'')])"

definition management_request ::
  "env \<Rightarrow> websocket \<Rightarrow> string \<Rightarrow> state \<Rightarrow> (error + unit) \<times> state" where
  "management_request E ws message s =
     (case json_loads E message of
        Inl e \<Rightarrow> (Inr (), s)
      | Inr request \<Rightarrow>
          (case py_getitem request ''type'' of
             Inl e \<Rightarrow> (Inr (), s)
           | Inr requestType \<Rightarrow>
               if requestType = JString ''poll'' then
                 (Inr (), emit (Send ws (Dumps (poll_result s))) s)
               else if requestType = JString ''kill'' then
                 (case py_in ''sessionID'' request of
                    Inl e \<Rightarrow> (Inl e, s)
                  | Inr False \<Rightarrow> (Inr (), s)
                  | Inr True \<Rightarrow>
                      (case py_getitem request ''sessionID'' of
                         Inl e \<Rightarrow> (Inl e, s)
                       | Inr sessionID' \<Rightarrow>
                           (case lookup_terminal sessionID' s of
                              Inl e \<Rightarrow> (Inl e, s)
                            | Inr None \<Rightarrow>
                                (Inr (), emit (Send ws (Dumps (kill_response False sessionID'))) s)
                            | Inr (Some terminal) \<Rightarrow>
                                if open (objects s terminal) then
                                  (Inr (),
                                   emit (Send ws (Dumps (kill_response True sessionID')))
                                     (emit (Kill (subshellPID (objects s terminal))) s))
                                else
                                  (Inr (),
                                   emit (Send ws (Dumps (kill_response False sessionID'))) s))))
               else (Inr (), s)))"

text \<open>\<^verbatim>\<open>managementHandler\<close>: the loop ends when \<^verbatim>\<open>recv\<close> raises \<^verbatim>\<open>ConnectionClosed\<close>.\<close>

fun managementHandler ::
  "env \<Rightarrow> websocket \<Rightarrow> json \<Rightarrow> (nat list \<times> received) list \<Rightarrow> state \<Rightarrow> outcome \<times> state" where
  "managementHandler E ws config [] s = (Blocked, s)"
| "managementHandler E ws config ((reaped, r) # evs) s =
     (let s1 = reap reaped s in
        case r of
          Closed \<Rightarrow> (Returned, s1)
        | Message message \<Rightarrow>
            (case management_request E ws message s1 of
               (Inl e, s2) \<Rightarrow> (Raised e, s2)
             | (Inr u, s2) \<Rightarrow> managementHandler E ws config evs s2))"

text \<open>
  \<^verbatim>\<open>handler\<close>, the entry point of a connection: \<open>request_headers\<close> are the headers of the
  opening request and \<open>evs\<close> the suspensions of \<^verbatim>\<open>recv\<close> on this connection.
\<close>

definition handler ::
  "env \<Rightarrow> websocket \<Rightarrow> string \<Rightarrow> (string \<rightharpoonup> string) \<Rightarrow> (nat list \<times> received) list \<Rightarrow> state
     \<Rightarrow> outcome \<times> state" where
  "handler E ws path request_headers evs s =
     (case request_headers ''Origin'' of
        None \<Rightarrow> (Raised KeyError, s)
      | Some origin \<Rightarrow>
          if origin \<notin> set (allowedOrigins E) then (Returned, emit (Close ws) s)
          else
            (case evs of
               [] \<Rightarrow> (Blocked, s)
             | (reaped, Closed) # evs' \<Rightarrow> (Raised ConnectionClosed, reap reaped s)
             | (reaped, Message configJSON) # evs' \<Rightarrow>
                 (let s1 = reap reaped s in
                    case json_loads E configJSON of
                      Inl e \<Rightarrow>
                        if e = JSONDecodeError then (Returned, emit (Close ws) s1)
                        else (Raised e, s1)
                    | Inr config \<Rightarrow>
                        (case py_in ''accessKey'' config of
                           Inl e \<Rightarrow> (Raised e, s1)
                         | Inr False \<Rightarrow> (Returned, emit (Close ws) s1)
                         | Inr True \<Rightarrow>
                             (case py_getitem config ''accessKey'' of
                                Inl e \<Rightarrow> (Raised e, s1)
                              | Inr key \<Rightarrow>
                                  (case validateAccessKey (time_time E) key s1 of
                                     (Inl e, s2) \<Rightarrow> (Raised e, s2)
                                   | (Inr False, s2) \<Rightarrow> (Returned, emit (Close ws) s2)
                                   | (Inr True, s2) \<Rightarrow>
                                       if path = ''/term'' then
                                         terminalHandler E ws config evs' s2
                                       else if path = ''/manage'' then
                                         (case managementHandler E ws config evs'
                                                 (s2\<lparr>managementConnections :=
                                                       List.insert ws (managementConnections s2)\<rparr>) of
                                            (Returned, s3) \<Rightarrow>
                                              if ws \<in> set (managementConnections s3) then
                                                (Returned,
                                                 s3\<lparr>managementConnections :=
                                                      removeAll ws (managementConnections s3)\<rparr>)
                                              else (Raised KeyError, s3)
                                          | (out, s3) \<Rightarrow> (out, s3))
                                       else (Returned, emit (Close ws) s2)))))))"

section \<open>Observing the effects\<close>

text \<open>The frames scheduled for one websocket, in order.\<close>

definition frames_to :: "websocket \<Rightarrow> state \<Rightarrow> payload list" where
  "frames_to ws s =
     concat (map (\<lambda>e. case e of Send w p \<Rightarrow> if w = ws then [p] else [] | _ \<Rightarrow> [])
                 (effects s))"

text \<open>From \<open>s\<close> to \<open>s'\<close> the effects have grown, and by sends only.\<close>

definition only_sends :: "state \<Rightarrow> state \<Rightarrow> bool" where
  "only_sends s s' \<longleftrightarrow>
     (\<exists>xs. effects s' = effects s @ xs \<and> (\<forall>e \<in> set xs. \<exists>w p. e = Send w p))"

section \<open>The invariant of the registry\<close>

text \<open>
  The keys of \<^verbatim>\<open>terminals\<close> are pairwise different (it is a dictionary); every entry
  holds a constructed object that carries the key as its session id and is open.
\<close>

definition registry_ok :: "state \<Rightarrow> bool" where
  "registry_ok s \<longleftrightarrow>
     distinct (map fst (terminals s)) \<and>
     (\<forall>(sid, a) \<in> set (terminals s).
        sessionID (objects s a) = sid \<and> open (objects s a) \<and> a < next_obj s)"

section \<open>Concrete scenarios\<close>

text \<open>
  The decoder on the frames of the scenarios below, where it agrees with \<^verbatim>\<open>json.loads\<close>;
  the other strings sent in the scenarios are no JSON documents.
\<close>

definition loads_example :: "string \<Rightarrow> error + json" where
  "loads_example doc =
     (if doc = ''{\"rows\":0,\"cols\":80}'' then
        Inr (JObject [(''rows'', JInt 0), (''cols'', JInt 80)])
      else if doc = ''{\"rows\":24,\"cols\":80}'' then
        Inr (JObject [(''rows'', JInt 24), (''cols'', JInt 80)])
      else if doc = ''{\"rows\":-1,\"cols\":80}'' then
        Inr (JObject [(''rows'', JInt (- 1)), (''cols'', JInt 80)])
      else if doc = ''{\"accessKey\":\"cd\",\"sessionID\":\"new\"}'' then
        Inr (JObject [(''accessKey'', JString ''cd''), (''sessionID'', JString ''new'')])
      else if doc = ''{\"accessKey\":\"cd\",\"sessionID\":\"0a0b0c0d\"}'' then
        Inr (JObject [(''accessKey'', JString ''cd''), (''sessionID'', JString ''0a0b0c0d'')])
      else if doc = ''{\"accessKey\":\"cd\"}'' then
        Inr (JObject [(''accessKey'', JString ''cd'')])
      else if doc = ''{\"type\":\"kill\",\"sessionID\":\"0a0b0c0d\"}'' then
        Inr (JObject [(''type'', JString ''kill''), (''sessionID'', JString ''0a0b0c0d'')])
      else if doc = ''{\"type\":\"kill\",\"sessionID\":\"ffffffff\"}'' then
        Inr (JObject [(''type'', JString ''kill''), (''sessionID'', JString ''ffffffff'')])
      else if doc = ''{\"type\":\"poll\"}'' then
        Inr (JObject [(''type'', JString ''poll'')])
      else Inl JSONDecodeError)"

text \<open>
  \<^verbatim>\<open>bytes.decode('utf-8')\<close> on the chunks of the scenarios: the bytes of \<^verbatim>\<open>out\<close>, and the
  byte \<^verbatim>\<open>0xff\<close>, which is no UTF-8.
\<close>

definition decode_example :: "8 word list \<Rightarrow> error + string" where
  "decode_example bs = (if bs = [111, 117, 116] then Inr ''out'' else Inl UnicodeDecodeError)"

definition env_example :: env where
  "env_example =
     \<lparr>json_loads = loads_example, time_time = 200,
      token_bytes4 = [0x0a0b0c0d, 0x01020304], pty_fork = (4343, 8),
      contentServerPort = 9423\<rparr>"

text \<open>
  One session \<^verbatim>\<open>0a0b0c0d\<close> (object 0, shell 4242 on descriptor 7) attached to websocket 1,
  one management connection 9, and the two access keys of the vault below.
\<close>

definition session_example :: state where
  "session_example =
     \<lparr>objects = (\<lambda>a. blank)(0 :=
         \<lparr>sessionID = ''0a0b0c0d'', websocket = 1, open = True, connected = True,
          subshellPID = 4242, ttyFd = 7\<rparr>),
      next_obj = 1, terminals = [(''0a0b0c0d'', 0)],
      accessKeys = [''ab'' \<mapsto> 100, ''cd'' \<mapsto> 5000],
      managementConnections = [9], effects = []\<rparr>"

text \<open>The same session after its peer has gone.\<close>

definition detached_example :: state where
  "detached_example = update_object 0 (\<lambda>t. t\<lparr>connected := False\<rparr>) session_example"

text \<open>
  A whole connection on \<^verbatim>\<open>/term\<close>: the handshake asks for a new session with the live key
  \<^verbatim>\<open>cd\<close>, the peer types \<^verbatim>\<open>ls\<close> and disconnects.
\<close>

definition new_session_run :: "outcome \<times> state" where
  "new_session_run =
     handler env_example 5 ''/term'' [''Origin'' \<mapsto> ''http://localhost:9423'']
       [([], Message ''{\"accessKey\":\"cd\",\"sessionID\":\"new\"}''),
        ([], Message ''kls''), ([], Closed)]
       session_example"

text \<open>
  A create whose shell exits at once, in the order of the threads: the constructor
  (which starts the reaper thread), the reaper, and then the registration of
  \<^verbatim>\<open>terminalHandler\<close>.
\<close>

definition early_started :: "nat \<times> state" where
  "early_started = new_Terminal ''01020304'' 5 (4343, 8) session_example"

definition early_reaped :: "outcome \<times> state" where
  "early_reaped = waitSubshell (fst early_started) (snd early_started)"

definition early_registered :: state where
  "early_registered =
     (snd early_reaped)\<lparr>terminals :=
        AList.update ''01020304'' (fst early_started) (terminals (snd early_reaped))\<rparr>"

text \<open>A vault with one expired and one live key at time 200, used to exercise the calls.\<close>

definition vault_example :: state where
  "vault_example =
     \<lparr>objects = (\<lambda>a. blank), next_obj = 0, terminals = [],
      accessKeys = [''ab'' \<mapsto> 100, ''cd'' \<mapsto> 5000],
      managementConnections = [], effects = []\<rparr>"

section \<open>Properties of the access keys\<close>

lemma validateAccessKey_string:
  "validateAccessKey now (JString k) s =
     (Inr (case accessKeys s k of None \<Rightarrow> False | Some e \<Rightarrow> \<not> e < now),
      s\<lparr>accessKeys := (\<lambda>x. if x = k then None
                             else case accessKeys s x of None \<Rightarrow> None
                                  | Some e \<Rightarrow> if e < now then None else Some e)\<rparr>)"
proof -
  let ?live = "case accessKeys s k of None \<Rightarrow> False | Some e \<Rightarrow> \<not> e < now"
  let ?D = "{key. case accessKeys s key of None \<Rightarrow> False | Some expire \<Rightarrow> expire < now}"
  let ?m = "accessKeys s |` (- ?D)"
  let ?r = "\<lambda>x. if x = k then None
                else case accessKeys s x of None \<Rightarrow> None
                     | Some e \<Rightarrow> if e < now then None else Some e"
  have dom: "k \<in> dom ?m \<longleftrightarrow> ?live"
    by (auto simp: restrict_map_def domIff split: option.splits)
  have upd: "?m(k := None) = ?r"
    by (rule ext) (auto simp: restrict_map_def split: option.splits)
  have same: "?m = ?r" if "\<not> ?live"
    using that by (intro ext) (auto simp: restrict_map_def split: option.splits)
  show ?thesis
  proof (cases ?live)
    case True
    then have "k \<in> dom ?m" using dom by blast
    then show ?thesis
      unfolding validateAccessKey_def Let_def using True upd by simp
  next
    case False
    then have "k \<notin> dom ?m" using dom by blast
    then show ?thesis
      unfolding validateAccessKey_def Let_def using False same [OF False] by simp
  qed
qed

lemma validateAccessKey_other:
  "\<forall>k. key \<noteq> JString k \<Longrightarrow>
   accessKeys (snd (validateAccessKey now key s)) =
     accessKeys s |` (- {key. case accessKeys s key of None \<Rightarrow> False | Some expire \<Rightarrow> expire < now})"
  unfolding validateAccessKey_def Let_def by (cases key) simp_all

lemma validateAccessKey_shrinks:
  "accessKeys (snd (validateAccessKey now key s)) x = None
   \<or> accessKeys (snd (validateAccessKey now key s)) x = accessKeys s x"
proof (cases "\<exists>k. key = JString k")
  case True
  then show ?thesis
    by (auto simp: validateAccessKey_string split: option.splits if_splits)
next
  case False
  then show ?thesis
    by (simp add: validateAccessKey_other restrict_map_def)
qed

lemma validateAccessKey_absent:
  "accessKeys s k = None \<Longrightarrow> accessKeys (snd (validateAccessKey now key s)) k = None"
  using validateAccessKey_shrinks [of now key s k] by auto

lemma vault_step_absent:
  "accessKeys s k = None \<Longrightarrow> \<not> reissues k op \<Longrightarrow> accessKeys (vault_step s op) k = None"
  by (cases op) (simp_all add: reissues_def generateAccessKey_def Let_def validateAccessKey_absent)

lemma vault_history_absent:
  "accessKeys s k = None \<Longrightarrow> \<forall>op \<in> set ops. \<not> reissues k op \<Longrightarrow>
   accessKeys (foldl vault_step s ops) k = None"
  by (induction ops arbitrary: s) (simp_all add: vault_step_absent)

lemma vault_step_expiry:
  "accessKeys s k = None \<or> accessKeys s k = Some e \<Longrightarrow> \<not> reissues k op \<Longrightarrow>
   accessKeys (vault_step s op) k = None \<or> accessKeys (vault_step s op) k = Some e"
proof (cases op)
  case (Issue now rnd)
  assume "accessKeys s k = None \<or> accessKeys s k = Some e" "\<not> reissues k op"
  with Issue show ?thesis
    by (auto simp: reissues_def generateAccessKey_def Let_def)
next
  case (Consume now key)
  assume a: "accessKeys s k = None \<or> accessKeys s k = Some e"
  have "accessKeys (snd (validateAccessKey now key s)) k = None
        \<or> accessKeys (snd (validateAccessKey now key s)) k = Some e"
    using a validateAccessKey_shrinks [of now key s k] by auto
  with Consume show ?thesis by simp
qed

lemma vault_history_expiry:
  "accessKeys s k = None \<or> accessKeys s k = Some e \<Longrightarrow> \<forall>op \<in> set ops. \<not> reissues k op \<Longrightarrow>
   accessKeys (foldl vault_step s ops) k = None \<or> accessKeys (foldl vault_step s ops) k = Some e"
proof (induction ops arbitrary: s)
  case Nil
  then show ?case by simp
next
  case (Cons op ops)
  have "accessKeys (vault_step s op) k = None \<or> accessKeys (vault_step s op) k = Some e"
    using Cons.prems by (intro vault_step_expiry) simp_all
  then show ?case
    using Cons.IH [of "vault_step s op"] Cons.prems(2) by simp
qed

text \<open>
  C1. \<^verbatim>\<open>validateAccessKey\<close> on a key \<open>k\<close> never raises, returns true exactly when \<open>k\<close> is
  stored with an expiry time that is not before the current time, and leaves the vault
  without any expired entry and without \<open>k\<close>, every other unexpired entry kept. Whatever
  the first call on \<open>k\<close> returned, after any history of the vault that does not issue \<open>k\<close>
  again a later call on \<open>k\<close> returns false. A key issued at time \<open>t0\<close> is refused by a
  call at a time later than \<open>t0 + 3600\<close>, after any history that does not issue it again.
\<close>

theorem validateAccessKey_consumes_once:
  "(fst (validateAccessKey now (JString k) s) = Inr True
      \<longleftrightarrow> (\<exists>e. accessKeys s k = Some e \<and> \<not> e < now))
   \<and> (fst (validateAccessKey now (JString k) s) = Inr False
      \<longleftrightarrow> \<not> (\<exists>e. accessKeys s k = Some e \<and> \<not> e < now))
   \<and> accessKeys (snd (validateAccessKey now (JString k) s)) =
        (\<lambda>x. if x = k then None
             else case accessKeys s x of None \<Rightarrow> None
                  | Some e \<Rightarrow> if e < now then None else Some e)
   \<and> ((\<forall>op \<in> set ops. \<not> reissues k op) \<longrightarrow>
        fst (validateAccessKey later (JString k)
              (foldl vault_step (snd (validateAccessKey now (JString k) s)) ops)) = Inr False)
   \<and> ((\<forall>op \<in> set ops. \<not> reissues (hexlify rnd) op) \<and> t0 + 3600 < later \<longrightarrow>
        fst (validateAccessKey later (JString (hexlify rnd))
              (foldl vault_step (snd (generateAccessKey t0 rnd s)) ops)) = Inr False)"
proof (intro conjI impI)
  show "fst (validateAccessKey now (JString k) s) = Inr True
          \<longleftrightarrow> (\<exists>e. accessKeys s k = Some e \<and> \<not> e < now)"
    by (simp add: validateAccessKey_string split: option.splits)
  show "fst (validateAccessKey now (JString k) s) = Inr False
          \<longleftrightarrow> \<not> (\<exists>e. accessKeys s k = Some e \<and> \<not> e < now)"
    by (simp add: validateAccessKey_string split: option.splits)
  show "accessKeys (snd (validateAccessKey now (JString k) s)) =
        (\<lambda>x. if x = k then None
             else case accessKeys s x of None \<Rightarrow> None
                  | Some e \<Rightarrow> if e < now then None else Some e)"
    by (simp add: validateAccessKey_string)
next
  assume fresh: "\<forall>op \<in> set ops. \<not> reissues k op"
  have "accessKeys (snd (validateAccessKey now (JString k) s)) k = None"
    by (simp add: validateAccessKey_string)
  then have "accessKeys (foldl vault_step (snd (validateAccessKey now (JString k) s)) ops) k = None"
    using fresh by (rule vault_history_absent)
  then show "fst (validateAccessKey later (JString k)
              (foldl vault_step (snd (validateAccessKey now (JString k) s)) ops)) = Inr False"
    by (simp add: validateAccessKey_string)
next
  assume a: "(\<forall>op \<in> set ops. \<not> reissues (hexlify rnd) op) \<and> t0 + 3600 < later"
  let ?k = "hexlify rnd"
  let ?s = "foldl vault_step (snd (generateAccessKey t0 rnd s)) ops"
  have "accessKeys (snd (generateAccessKey t0 rnd s)) ?k = Some (t0 + 3600)"
    by (simp add: generateAccessKey_def Let_def)
  then have "accessKeys ?s ?k = None \<or> accessKeys ?s ?k = Some (t0 + 3600)"
    using a by (intro vault_history_expiry) simp_all
  then show "fst (validateAccessKey later (JString ?k) ?s) = Inr False"
    using a by (auto simp: validateAccessKey_string)
qed

theorem validateAccessKey_consumes_once_witness:
  "fst (validateAccessKey 200 (JString ''cd'') vault_example) = Inr True
   \<and> accessKeys (snd (validateAccessKey 200 (JString ''cd'') vault_example)) ''ab'' = None
   \<and> fst (validateAccessKey 9000 (JString ''cd'')
            (foldl vault_step (snd (validateAccessKey 200 (JString ''cd'') vault_example))
               [Consume 250 (JString ''ab''), Issue 260 [1]])) = Inr False
   \<and> fst (validateAccessKey 9000 (JString (hexlify [171]))
            (foldl vault_step (snd (generateAccessKey 1000 [171] vault_example))
               [Consume 250 (JString ''ab''), Issue 260 [1]])) = Inr False"
  using validateAccessKey_consumes_once
    [where now = 200 and k = "''cd''" and s = vault_example and later = 9000
       and ops = "[Consume 250 (JString ''ab''), Issue 260 [1]]" and rnd = "[171]"
       and ?t0.0 = 1000]
  by (simp add: vault_example_def reissues_def hexlify_def hexdigit_def)

section \<open>What each operation changes\<close>

lemma emit_fields [simp]:
  "objects (emit e s) = objects s" "next_obj (emit e s) = next_obj s"
  "terminals (emit e s) = terminals s" "accessKeys (emit e s) = accessKeys s"
  "managementConnections (emit e s) = managementConnections s"
  "effects (emit e s) = effects s @ [e]"
  by (simp_all add: emit_def)

lemma poll_entries_cong:
  "objects s' = objects s \<Longrightarrow> terminals s' = terminals s \<Longrightarrow> poll_entries s' = poll_entries s"
  by (simp add: poll_entries_def)

lemma fold_emit:
  "fold (\<lambda>w. emit (f w)) ws s = s\<lparr>effects := effects s @ map f ws\<rparr>"
  by (induction ws arbitrary: s) (simp_all add: emit_def)

lemma pushStateChange_eq:
  "pushStateChange s =
     s\<lparr>effects := effects s @ map (\<lambda>w. Send w (Dumps (poll_result s))) (managementConnections s)\<rparr>"
  by (simp add: pushStateChange_def Let_def fold_emit)

lemma pushStateChange_fields [simp]:
  "objects (pushStateChange s) = objects s" "next_obj (pushStateChange s) = next_obj s"
  "terminals (pushStateChange s) = terminals s" "accessKeys (pushStateChange s) = accessKeys s"
  "managementConnections (pushStateChange s) = managementConnections s"
  by (simp_all add: pushStateChange_eq)

lemma update_object_fields [simp]:
  "objects (update_object a f s) = (objects s)(a := f (objects s a))"
  "next_obj (update_object a f s) = next_obj s"
  "terminals (update_object a f s) = terminals s"
  "accessKeys (update_object a f s) = accessKeys s"
  "managementConnections (update_object a f s) = managementConnections s"
  "effects (update_object a f s) = effects s"
  by (simp_all add: update_object_def)

lemma send_fields [simp]:
  "objects (send a d s) = objects s" "next_obj (send a d s) = next_obj s"
  "terminals (send a d s) = terminals s" "accessKeys (send a d s) = accessKeys s"
  "managementConnections (send a d s) = managementConnections s"
  "effects (send a d s) = effects s @ [Send (websocket (objects s a)) (Text d)]"
  by (simp_all add: send_def)

lemma resizeTerminal_fields [simp]:
  "objects (snd (resizeTerminal a r c s)) = objects s"
  "next_obj (snd (resizeTerminal a r c s)) = next_obj s"
  "terminals (snd (resizeTerminal a r c s)) = terminals s"
  "accessKeys (snd (resizeTerminal a r c s)) = accessKeys s"
  "managementConnections (snd (resizeTerminal a r c s)) = managementConnections s"
  by (simp_all add: resizeTerminal_def split: sum.splits)

lemma onClientInput_fields [simp]:
  "objects (snd (onClientInput E a m s)) = objects s"
  "next_obj (snd (onClientInput E a m s)) = next_obj s"
  "terminals (snd (onClientInput E a m s)) = terminals s"
  "accessKeys (snd (onClientInput E a m s)) = accessKeys s"
  "managementConnections (snd (onClientInput E a m s)) = managementConnections s"
  by (simp_all add: onClientInput_def split: sum.splits)

section \<open>The registry invariant is kept\<close>

lemma registry_ok_cong:
  "objects s' = objects s \<Longrightarrow> terminals s' = terminals s \<Longrightarrow> next_obj s' = next_obj s \<Longrightarrow>
   registry_ok s' = registry_ok s"
  by (simp add: registry_ok_def)

lemma registry_ok_emit [simp]: "registry_ok (emit e s) = registry_ok s"
  by (rule registry_ok_cong) simp_all

lemma registry_ok_pushStateChange [simp]: "registry_ok (pushStateChange s) = registry_ok s"
  by (rule registry_ok_cong) simp_all

lemma registry_ok_send [simp]: "registry_ok (send a d s) = registry_ok s"
  by (rule registry_ok_cong) simp_all

lemma registry_ok_onClientInput [simp]:
  "registry_ok (snd (onClientInput E a m s)) = registry_ok s"
  by (rule registry_ok_cong) simp_all

lemma registry_ok_entry:
  "registry_ok s \<Longrightarrow> (k, b) \<in> set (terminals s) \<Longrightarrow>
   sessionID (objects s b) = k \<and> open (objects s b) \<and> b < next_obj s"
  by (auto simp: registry_ok_def)

lemma registry_ok_flags:
  assumes "registry_ok s"
  shows "registry_ok (update_object a (\<lambda>t. t\<lparr>websocket := w, connected := c\<rparr>) s)"
    and "registry_ok (update_object a (\<lambda>t. t\<lparr>connected := c\<rparr>) s)"
  using assms by (auto simp: registry_ok_def)

lemma registry_okI:
  "distinct (map fst (terminals s)) \<Longrightarrow>
   (\<And>k b. (k, b) \<in> set (terminals s) \<Longrightarrow>
      sessionID (objects s b) = k \<and> open (objects s b) \<and> b < next_obj s) \<Longrightarrow>
   registry_ok s"
  by (auto simp: registry_ok_def)

lemma waitSubshell_registry_ok:
  assumes "registry_ok s"
  shows "registry_ok (snd (waitSubshell a s))"
proof -
  let ?sid = "sessionID (objects s a)"
  define s1 where "s1 = update_object a (\<lambda>t. t\<lparr>open := False\<rparr>) s"
  define s2 where "s2 = s1\<lparr>terminals := AList.delete ?sid (terminals s1)\<rparr>"
  have s1: "terminals s1 = terminals s" "next_obj s1 = next_obj s"
    "\<And>b. b \<noteq> a \<Longrightarrow> objects s1 b = objects s b" "sessionID (objects s1 a) = ?sid"
    by (simp_all add: s1_def)
  have s2: "terminals s2 = AList.delete ?sid (terminals s)" "next_obj s2 = next_obj s"
    "objects s2 = objects s1"
    by (simp_all add: s2_def s1)
  have other: "b \<noteq> a" if "(k, b) \<in> set (terminals s)" "k \<noteq> ?sid" for k b
    using registry_ok_entry [OF assms that(1)] that(2) by auto
  have w: "waitSubshell a s =
      (if ?sid \<notin> fst ` set (terminals s) then (Raised KeyError, s1)
       else (Returned, pushStateChange s2))"
    by (simp add: waitSubshell_def Let_def s1_def s2_def)
  show ?thesis
  proof (cases "?sid \<in> fst ` set (terminals s)")
    case False
    have "registry_ok s1"
    proof (rule registry_okI)
      show "distinct (map fst (terminals s1))"
        using assms by (simp add: s1 registry_ok_def)
    next
      fix k b assume "(k, b) \<in> set (terminals s1)"
      then have kb: "(k, b) \<in> set (terminals s)" by (simp add: s1)
      then have "k \<noteq> ?sid" using False by force
      then have "b \<noteq> a" using kb other by blast
      then show "sessionID (objects s1 b) = k \<and> open (objects s1 b) \<and> b < next_obj s1"
        using registry_ok_entry [OF assms kb] by (simp add: s1)
    qed
    then show ?thesis using False w by simp
  next
    case True
    have "registry_ok s2"
    proof (rule registry_okI)
      show "distinct (map fst (terminals s2))"
        using assms by (simp add: s2 registry_ok_def AList.distinct_delete)
    next
      fix k b assume "(k, b) \<in> set (terminals s2)"
      then have kb: "(k, b) \<in> set (terminals s)" and "k \<noteq> ?sid"
        by (auto simp: s2 AList.delete_eq)
      then have "b \<noteq> a" using other by blast
      then show "sessionID (objects s2 b) = k \<and> open (objects s2 b) \<and> b < next_obj s2"
        using registry_ok_entry [OF assms kb] by (simp add: s1 s2)
    qed
    then show ?thesis using True w by simp
  qed
qed

lemma reap_registry_ok: "registry_ok s \<Longrightarrow> registry_ok (reap reaped s)"
  unfolding reap_def
  by (induction reaped arbitrary: s) (simp_all add: waitSubshell_registry_ok)

lemma listen_loop_registry_ok:
  "registry_ok s \<Longrightarrow> registry_ok (snd (listen_loop E a evs s))"
proof (induction evs arbitrary: s)
  case Nil
  then show ?case by simp
next
  case (Cons ev evs)
  obtain reaped r where ev: "ev = (reaped, r)" by (cases ev)
  have r: "registry_ok (reap reaped s)"
    using Cons.prems by (rule reap_registry_ok)
  show ?case
  proof (cases r)
    case Closed
    then show ?thesis
      using ev r Cons.prems by (simp add: Let_def registry_ok_flags)
  next
    case (Message m)
    obtain res s2 where o: "onClientInput E a m (reap reaped s) = (res, s2)"
      by (cases "onClientInput E a m (reap reaped s)")
    have s2: "registry_ok s2"
      using r registry_ok_onClientInput [of E a m "reap reaped s"] o by simp
    show ?thesis
      using ev Message o s2 Cons.prems Cons.IH [OF s2]
      by (cases res) (simp_all add: Let_def)
  qed
qed

lemma listen_registry_ok:
  "registry_ok s \<Longrightarrow> registry_ok (snd (listen E a evs s))"
proof -
  assume ok: "registry_ok s"
  let ?s2 = "send a (sessionID (objects (pushStateChange s) a)) (pushStateChange s)"
  have "registry_ok ?s2" using ok by simp
  then have "registry_ok (snd (listen_loop E a evs ?s2))"
    by (rule listen_loop_registry_ok)
  then show ?thesis
    unfolding listen_def Let_def
    by (cases "listen_loop E a evs ?s2"; cases "fst (listen_loop E a evs ?s2)") simp_all
qed

lemma validateAccessKey_fields [simp]:
  "objects (snd (validateAccessKey now key s)) = objects s"
  "next_obj (snd (validateAccessKey now key s)) = next_obj s"
  "terminals (snd (validateAccessKey now key s)) = terminals s"
  "managementConnections (snd (validateAccessKey now key s)) = managementConnections s"
  "effects (snd (validateAccessKey now key s)) = effects s"
  unfolding validateAccessKey_def Let_def
  by (simp_all split: sum.splits bool.splits json.splits)

lemma registry_ok_validateAccessKey [simp]:
  "registry_ok (snd (validateAccessKey now key s)) = registry_ok s"
  by (rule registry_ok_cong) simp_all

lemma management_request_fields [simp]:
  "objects (snd (management_request E w m s)) = objects s"
  "next_obj (snd (management_request E w m s)) = next_obj s"
  "terminals (snd (management_request E w m s)) = terminals s"
  "accessKeys (snd (management_request E w m s)) = accessKeys s"
  "managementConnections (snd (management_request E w m s)) = managementConnections s"
  unfolding management_request_def
  by (simp_all split: sum.splits bool.splits option.splits)

lemma registry_ok_management_request [simp]:
  "registry_ok (snd (management_request E w m s)) = registry_ok s"
  by (rule registry_ok_cong) simp_all

lemma managementHandler_registry_ok:
  "registry_ok s \<Longrightarrow> registry_ok (snd (managementHandler E w config evs s))"
proof (induction evs arbitrary: s)
  case Nil
  then show ?case by simp
next
  case (Cons ev evs)
  obtain reaped r where ev: "ev = (reaped, r)" by (cases ev)
  have r: "registry_ok (reap reaped s)"
    using Cons.prems by (rule reap_registry_ok)
  show ?case
  proof (cases r)
    case Closed
    then show ?thesis using ev r by (simp add: Let_def)
  next
    case (Message m)
    obtain res s2 where o: "management_request E w m (reap reaped s) = (res, s2)"
      by (cases "management_request E w m (reap reaped s)")
    have s2: "registry_ok s2"
      using r registry_ok_management_request [of E w m "reap reaped s"] o by simp
    show ?thesis
      using ev Message o s2 Cons.IH [OF s2]
      by (cases res) (simp_all add: Let_def)
  qed
qed

lemma pushTtyOutput_registry_ok:
  "registry_ok s \<Longrightarrow> registry_ok (snd (pushTtyOutput decode a evs s))"
proof (induction evs arbitrary: s)
  case Nil
  then show ?case by simp
next
  case (Cons ev evs)
  obtain reaped r where ev: "ev = (reaped, r)" by (cases ev)
  have r: "registry_ok (reap reaped s)"
    using Cons.prems by (rule reap_registry_ok)
  then have r': "registry_ok (send a d (reap reaped s))" for d by simp
  show ?case
    using ev Cons.prems Cons.IH [OF r] Cons.IH [OF r']
    by (simp add: Let_def split: option.splits sum.splits)
qed

lemma generateSessionID_fresh:
  "generateSessionID draws s = Some sid \<Longrightarrow> sid \<notin> fst ` set (terminals s)"
  by (induction draws) (auto simp: Let_def split: if_splits)

lemma new_Terminal_eq:
  "new_Terminal sid w forked s =
     (next_obj s,
      s\<lparr>objects := (objects s)(next_obj s :=
           \<lparr>sessionID = sid, websocket = w, open = True, connected = True,
            subshellPID = fst forked, ttyFd = snd forked\<rparr>),
        next_obj := Suc (next_obj s)\<rparr>)"
  by (simp add: new_Terminal_def Let_def startTty_def update_object_def blank_def)

lemma update_fresh:
  "k \<notin> fst ` set xs \<Longrightarrow> AList.update k v xs = xs @ [(k, v)]"
  by (induction xs) auto

lemma register_new_registry_ok:
  assumes "registry_ok s" and "sid \<notin> fst ` set (terminals s)"
    and "new_Terminal sid w forked s = (a, s1)"
  shows "registry_ok (s1\<lparr>terminals := AList.update sid a (terminals s1)\<rparr>)"
proof (rule registry_okI)
  have a: "a = next_obj s" and t: "terminals s1 = terminals s"
    and n: "next_obj s1 = Suc (next_obj s)"
    and o: "objects s1 = (objects s)(next_obj s :=
           \<lparr>sessionID = sid, websocket = w, open = True, connected = True,
            subshellPID = fst forked, ttyFd = snd forked\<rparr>)"
    using assms(3) by (auto simp: new_Terminal_eq)
  have u: "AList.update sid a (terminals s) = terminals s @ [(sid, a)]"
    using assms(2) by (rule update_fresh)
  show "distinct (map fst (terminals (s1\<lparr>terminals := AList.update sid a (terminals s1)\<rparr>)))"
    using assms(1) by (simp add: t registry_ok_def AList.distinct_update)
  fix k b
  assume "(k, b) \<in> set (terminals (s1\<lparr>terminals := AList.update sid a (terminals s1)\<rparr>))"
  then consider "(k, b) \<in> set (terminals s)" | "k = sid" "b = a"
    by (auto simp: t u)
  then show "sessionID (objects (s1\<lparr>terminals := AList.update sid a (terminals s1)\<rparr>) b) = k
      \<and> open (objects (s1\<lparr>terminals := AList.update sid a (terminals s1)\<rparr>) b)
      \<and> b < next_obj (s1\<lparr>terminals := AList.update sid a (terminals s1)\<rparr>)"
  proof cases
    case 1
    then show ?thesis
      using registry_ok_entry [OF assms(1) 1] by (auto simp: o n)
  next
    case 2
    then show ?thesis by (simp add: o n a)
  qed
qed

lemma terminalHandler_registry_ok:
  assumes "registry_ok s"
  shows "registry_ok (snd (terminalHandler E w config evs s))"
proof (cases "py_in ''sessionID'' config")
  case (Inl e)
  then show ?thesis using assms by (simp add: terminalHandler_def)
next
  case (Inr present)
  show ?thesis
  proof (cases present)
    case False
    then show ?thesis using Inr assms by (simp add: terminalHandler_def)
  next
    case True
    show ?thesis
    proof (cases "py_getitem config ''sessionID''")
      case (Inl e)
      then show ?thesis using Inr True assms by (simp add: terminalHandler_def)
    next
      case v: (Inr v)
      show ?thesis
      proof (cases "v = JString ''new''")
        case new: True
        show ?thesis
        proof (cases "generateSessionID (token_bytes4 E) s")
          case None
          then show ?thesis using Inr True v new assms by (simp add: terminalHandler_def)
        next
          case (Some sid)
          obtain a s1 where n: "new_Terminal sid w (pty_fork E) s = (a, s1)"
            by (cases "new_Terminal sid w (pty_fork E) s")
          have "registry_ok (s1\<lparr>terminals := AList.update sid a (terminals s1)\<rparr>)"
            using assms generateSessionID_fresh [OF Some] n by (rule register_new_registry_ok)
          then have "registry_ok (snd (listen E a evs
                        (s1\<lparr>terminals := AList.update sid a (terminals s1)\<rparr>)))"
            by (rule listen_registry_ok)
          then show ?thesis
            using Inr True v new Some n by (simp add: terminalHandler_def Let_def)
        qed
      next
        case old: False
        show ?thesis
        proof (cases "lookup_terminal v s")
          case (Inl e)
          then show ?thesis using Inr True v old assms by (simp add: terminalHandler_def)
        next
          case found: (Inr found)
          show ?thesis
          proof (cases found)
            case None
            then show ?thesis
              using Inr True v old found assms by (simp add: terminalHandler_def)
          next
            case (Some a)
            have "registry_ok (snd (listen E a evs (setNewConnection a w s)))"
              using assms by (intro listen_registry_ok) (simp add: setNewConnection_def registry_ok_flags)
            then show ?thesis
              using Inr True v old found Some assms by (simp add: terminalHandler_def)
          qed
        qed
      qed
    qed
  qed
qed

lemma handler_registry_ok:
  assumes "registry_ok s"
  shows "registry_ok (snd (handler E w path request_headers evs s))"
proof (cases "request_headers ''Origin''")
  case None
  then show ?thesis using assms by (simp add: handler_def)
next
  case (Some origin)
  show ?thesis
  proof (cases "origin \<in> set (allowedOrigins E)")
    case False
    then show ?thesis using Some assms by (simp add: handler_def)
  next
    case allowed: True
    show ?thesis
    proof (cases evs)
      case Nil
      then show ?thesis using Some allowed assms by (simp add: handler_def)
    next
      case (Cons ev evs')
      obtain reaped r where ev: "ev = (reaped, r)" by (cases ev)
      have r: "registry_ok (reap reaped s)"
        using assms by (rule reap_registry_ok)
      show ?thesis
      proof (cases r)
        case Closed
        then show ?thesis using Some allowed Cons ev r by (simp add: handler_def)
      next
        case (Message configJSON)
        let ?s1 = "reap reaped s"
        have h: "handler E w path request_headers evs s =
          (case json_loads E configJSON of
             Inl e \<Rightarrow> if e = JSONDecodeError then (Returned, emit (Close w) ?s1) else (Raised e, ?s1)
           | Inr config \<Rightarrow>
              (case py_in ''accessKey'' config of
                 Inl e \<Rightarrow> (Raised e, ?s1)
               | Inr False \<Rightarrow> (Returned, emit (Close w) ?s1)
               | Inr True \<Rightarrow>
                  (case py_getitem config ''accessKey'' of
                     Inl e \<Rightarrow> (Raised e, ?s1)
                   | Inr key \<Rightarrow>
                      (case validateAccessKey (time_time E) key ?s1 of
                         (Inl e, s2) \<Rightarrow> (Raised e, s2)
                       | (Inr False, s2) \<Rightarrow> (Returned, emit (Close w) s2)
                       | (Inr True, s2) \<Rightarrow>
                           if path = ''/term'' then terminalHandler E w config evs' s2
                           else if path = ''/manage'' then
                             (case managementHandler E w config evs'
                                     (s2\<lparr>managementConnections :=
                                           List.insert w (managementConnections s2)\<rparr>) of
                                (Returned, s3) \<Rightarrow>
                                  if w \<in> set (managementConnections s3) then
                                    (Returned,
                                     s3\<lparr>managementConnections :=
                                          removeAll w (managementConnections s3)\<rparr>)
                                  else (Raised KeyError, s3)
                              | (out, s3) \<Rightarrow> (out, s3))
                           else (Returned, emit (Close w) s2)))))"
          using Some allowed Cons ev Message by (simp add: handler_def Let_def)
        show ?thesis
        proof (cases "json_loads E configJSON")
          case (Inl e)
          then show ?thesis using h r by simp
        next
          case config: (Inr config)
          show ?thesis
          proof (cases "py_in ''accessKey'' config")
            case (Inl e)
            then show ?thesis using h config r by simp
          next
            case (Inr present)
            show ?thesis
            proof (cases "present")
              case False
              then show ?thesis using h config Inr r by simp
            next
              case True
              show ?thesis
              proof (cases "py_getitem config ''accessKey''")
                case (Inl e)
                then show ?thesis using h config Inr True r by simp
              next
                case key: (Inr key)
                obtain res s2 where v: "validateAccessKey (time_time E) key ?s1 = (res, s2)"
                  by (cases "validateAccessKey (time_time E) key ?s1")
                have s2: "registry_ok s2"
                  using r registry_ok_validateAccessKey [of "time_time E" key ?s1] v by simp
                show ?thesis
                proof (cases res)
                  case (Inl e)
                  then show ?thesis using h config Inr True key v s2 by simp
                next
                  case valid: (Inr valid)
                  show ?thesis
                  proof (cases valid)
                    case False
                    then show ?thesis using h config Inr True key v valid s2 by simp
                  next
                    case ok: True
                    let ?s3 = "s2\<lparr>managementConnections := List.insert w (managementConnections s2)\<rparr>"
                    have "registry_ok ?s3"
                      using s2 by (simp add: registry_ok_def)
                    then have m: "registry_ok (snd (managementHandler E w config evs' ?s3))"
                      by (rule managementHandler_registry_ok)
                    obtain out s4 where mh: "managementHandler E w config evs' ?s3 = (out, s4)"
                      by (cases "managementHandler E w config evs' ?s3")
                    have s4: "registry_ok s4" using m mh by simp
                    then have s4': "registry_ok (s4\<lparr>managementConnections :=
                                          removeAll w (managementConnections s4)\<rparr>)"
                      by (simp add: registry_ok_def)
                    have t: "registry_ok (snd (terminalHandler E w config evs' s2))"
                      using s2 by (rule terminalHandler_registry_ok)
                    show ?thesis
                      using h config Inr True key v valid ok s2 t mh s4 s4'
                      by (cases out) simp_all
                  qed
                qed
              qed
            qed
          qed
        qed
      qed
    qed
  qed
qed

section \<open>Window size\<close>

lemma resizeTerminal_ints:
  "resizeTerminal self (JInt rows) (JInt cols) s =
     (if 0 \<le> rows \<and> rows \<le> 65535 \<and> 0 \<le> cols \<and> cols \<le> 65535
      then (Inr (), emit (Ioctl (ttyFd (objects s self))
                            [word_of_int rows, word_of_int cols, 0, 0]) s)
      else (Inl StructError, s))"
  by (simp add: resizeTerminal_def)

lemma onClientInput_resize:
  "json_loads E payload = Inr dimensions \<Longrightarrow> py_getitem dimensions ''rows'' = Inr rows \<Longrightarrow>
   py_getitem dimensions ''cols'' = Inr cols \<Longrightarrow>
   onClientInput E self (CHR ''r'' # payload) s = resizeTerminal self rows cols s"
  by (simp add: onClientInput_def)

text \<open>
  C2, as the code has it. \<^verbatim>\<open>resizeTerminal\<close> on integer dimensions issues the
  \<^verbatim>\<open>TIOCSWINSZ\<close> ioctl exactly when both lie between 0 and 65535, zero included; when one
  of them is negative or above 65535 the call raises \<^verbatim>\<open>struct.error\<close> and nothing is
  issued. A client message \<^verbatim>\<open>r{"rows":N,"cols":M}\<close> is the same call on \<open>N\<close> and \<open>M\<close>.
\<close>

theorem resizeTerminal_forwards_range:
  "resizeTerminal self (JInt rows) (JInt cols) s =
     (if 0 \<le> rows \<and> rows \<le> 65535 \<and> 0 \<le> cols \<and> cols \<le> 65535
      then (Inr (), emit (Ioctl (ttyFd (objects s self))
                            [word_of_int rows, word_of_int cols, 0, 0]) s)
      else (Inl StructError, s))
   \<and> (json_loads E payload = Inr (JObject ms) \<and> map_of ms ''rows'' = Some (JInt rows)
        \<and> map_of ms ''cols'' = Some (JInt cols)
      \<longrightarrow> onClientInput E self (CHR ''r'' # payload) s
            = resizeTerminal self (JInt rows) (JInt cols) s)"
proof (intro conjI impI)
  show "resizeTerminal self (JInt rows) (JInt cols) s =
     (if 0 \<le> rows \<and> rows \<le> 65535 \<and> 0 \<le> cols \<and> cols \<le> 65535
      then (Inr (), emit (Ioctl (ttyFd (objects s self))
                            [word_of_int rows, word_of_int cols, 0, 0]) s)
      else (Inl StructError, s))"
    by (rule resizeTerminal_ints)
next
  assume a: "json_loads E payload = Inr (JObject ms) \<and> map_of ms ''rows'' = Some (JInt rows)
        \<and> map_of ms ''cols'' = Some (JInt cols)"
  then show "onClientInput E self (CHR ''r'' # payload) s
            = resizeTerminal self (JInt rows) (JInt cols) s"
    by (simp add: onClientInput_resize [where dimensions = "JObject ms"])
qed

theorem resizeTerminal_forwards_range_witness:
  "onClientInput env_example 0 ''r{\"rows\":-1,\"cols\":80}'' session_example
     = (Inl StructError, session_example)
   \<and> onClientInput env_example 0 ''r{\"rows\":24,\"cols\":80}'' session_example
     = (Inr (), emit (Ioctl 7 [24, 80, 0, 0]) session_example)"
  using resizeTerminal_forwards_range
      [where E = env_example and payload = "''{\"rows\":-1,\"cols\":80}''"
         and ms = "[(''rows'', JInt (- 1)), (''cols'', JInt 80)]"
         and rows = "- 1" and cols = 80 and self = 0 and s = session_example]
    resizeTerminal_forwards_range
      [where E = env_example and payload = "''{\"rows\":24,\"cols\":80}''"
         and ms = "[(''rows'', JInt 24), (''cols'', JInt 80)]"
         and rows = 24 and cols = 80 and self = 0 and s = session_example]
  by (simp add: env_example_def loads_example_def session_example_def)

text \<open>
  C2 as stated fails: zero rows are not rejected. Both the direct call and the client
  message \<^verbatim>\<open>r{"rows":0,"cols":80}\<close> issue the ioctl with a zero row count.
\<close>

theorem resize_zero_is_forwarded:
  "resizeTerminal 0 (JInt 0) (JInt 80) session_example
     = (Inr (), emit (Ioctl 7 [0, 80, 0, 0]) session_example)
   \<and> onClientInput env_example 0 ''r{\"rows\":0,\"cols\":80}'' session_example
     = (Inr (), emit (Ioctl 7 [0, 80, 0, 0]) session_example)"
  by (simp add: onClientInput_def resizeTerminal_def env_example_def loads_example_def
        session_example_def)

section \<open>Serving a peer\<close>

lemma onClientInput_opcodes:
  "onClientInput E self [] s = (Inr (), s)"
  "onClientInput E self (CHR ''k'' # payload) s
     = (Inr (), emit (Write (ttyFd (objects s self)) payload) s)"
  "c \<noteq> CHR ''k'' \<Longrightarrow> c \<noteq> CHR ''r'' \<Longrightarrow> onClientInput E self (c # payload) s = (Inr (), s)"
  by (simp_all add: onClientInput_def)

lemma waitSubshell_other_object:
  "b \<noteq> a \<Longrightarrow> objects (snd (waitSubshell a s)) b = objects s b"
  by (simp add: waitSubshell_def Let_def)

lemma reap_other_object:
  "b \<notin> set reaped \<Longrightarrow> objects (reap reaped s) b = objects s b"
  unfolding reap_def
  by (induction reaped arbitrary: s) (simp_all add: waitSubshell_other_object)

lemma listen_loop_open:
  "\<forall>ev \<in> set evs. b \<notin> set (fst ev) \<Longrightarrow>
   open (objects (snd (listen_loop E self evs s)) b) = open (objects s b)"
proof (induction evs arbitrary: s)
  case Nil
  then show ?case by simp
next
  case (Cons ev evs)
  obtain reaped r where ev: "ev = (reaped, r)" by (cases ev)
  have b: "b \<notin> set reaped" and rest: "\<forall>ev \<in> set evs. b \<notin> set (fst ev)"
    using Cons.prems ev by auto
  have r: "objects (reap reaped s) b = objects s b"
    using b by (rule reap_other_object)
  show ?case
  proof (cases r)
    case Closed
    then show ?thesis using ev r by (auto simp: Let_def)
  next
    case (Message m)
    obtain res s2 where o: "onClientInput E self m (reap reaped s) = (res, s2)"
      by (cases "onClientInput E self m (reap reaped s)")
    have s2: "objects s2 = objects (reap reaped s)"
      using onClientInput_fields(1) [of E self m "reap reaped s"] o by simp
    show ?thesis
      using ev Message o s2 r Cons.IH [OF rest, of s2]
      by (cases res) (simp_all add: Let_def)
  qed
qed

lemma listen_loop_end:
  "case fst (listen_loop E self evs s) of
     RecvFailed \<Rightarrow> (\<exists>reaped. (reaped, Closed) \<in> set evs)
                   \<and> \<not> connected (objects (snd (listen_loop E self evs s)) self)
   | NotOpen \<Rightarrow> \<not> open (objects (snd (listen_loop E self evs s)) self)
   | Waiting \<Rightarrow> open (objects (snd (listen_loop E self evs s)) self)
   | Escaped e \<Rightarrow> True"
proof (induction evs arbitrary: s)
  case Nil
  then show ?case by simp
next
  case (Cons ev evs)
  obtain reaped r where ev: "ev = (reaped, r)" by (cases ev)
  show ?case
  proof (cases "open (objects s self)")
    case False
    then show ?thesis using ev by simp
  next
    case True
    show ?thesis
    proof (cases r)
      case Closed
      then show ?thesis using ev True by (auto simp: Let_def)
    next
      case (Message m)
      obtain res s2 where o: "onClientInput E self m (reap reaped s) = (res, s2)"
        by (cases "onClientInput E self m (reap reaped s)")
      show ?thesis
      proof (cases res)
        case (Inl e)
        then show ?thesis using ev True Message o by (simp add: Let_def)
      next
        case (Inr u)
        then have l: "listen_loop E self (ev # evs) s = listen_loop E self evs s2"
          using ev True Message o by (simp add: Let_def)
        show ?thesis
          using Cons.IH [of s2] unfolding l
          by (cases "fst (listen_loop E self evs s2)") auto
      qed
    qed
  qed
qed

lemma waitSubshell_connected:
  "connected (objects (snd (waitSubshell a s)) b) = connected (objects s b)"
  by (simp add: waitSubshell_def Let_def)

lemma reap_connected:
  "connected (objects (reap reaped s) b) = connected (objects s b)"
  unfolding reap_def
  by (induction reaped arbitrary: s) (simp_all add: waitSubshell_connected)

lemma waitSubshell_stays_closed:
  "b = a \<or> \<not> open (objects s b) \<Longrightarrow> \<not> open (objects (snd (waitSubshell a s)) b)"
  by (auto simp: waitSubshell_def Let_def)

lemma reap_stays_closed:
  "\<not> open (objects s b) \<Longrightarrow> \<not> open (objects (reap reaped s) b)"
  unfolding reap_def
  by (induction reaped arbitrary: s) (simp_all add: waitSubshell_stays_closed)

lemma reap_closes:
  "a \<in> set reaped \<Longrightarrow> \<not> open (objects (reap reaped s) a)"
proof (induction reaped arbitrary: s)
  case Nil
  then show ?case by simp
next
  case (Cons x reaped)
  have step: "reap (x # reaped) s = reap reaped (snd (waitSubshell x s))"
    by (simp add: reap_def)
  show ?case
  proof (cases "a = x")
    case True
    then have "\<not> open (objects (snd (waitSubshell x s)) a)"
      by (simp add: waitSubshell_stays_closed)
    then show ?thesis unfolding step by (rule reap_stays_closed)
  next
    case False
    then have "a \<in> set reaped" using Cons.prems by simp
    then show ?thesis unfolding step by (rule Cons.IH)
  qed
qed

lemma listen_loop_connected:
  "b \<noteq> self \<or> fst (listen_loop E self evs s) \<noteq> RecvFailed \<Longrightarrow>
   connected (objects (snd (listen_loop E self evs s)) b) = connected (objects s b)"
proof (induction evs arbitrary: s)
  case Nil
  then show ?case by simp
next
  case (Cons ev evs)
  obtain reaped r where ev: "ev = (reaped, r)" by (cases ev)
  show ?case
  proof (cases "open (objects s self)")
    case False
    then show ?thesis using ev by simp
  next
    case True
    show ?thesis
    proof (cases r)
      case Closed
      then show ?thesis
        using ev True Cons.prems by (auto simp: Let_def reap_connected)
    next
      case (Message m)
      obtain res s2 where o: "onClientInput E self m (reap reaped s) = (res, s2)"
        by (cases "onClientInput E self m (reap reaped s)")
      have s2: "objects s2 = objects (reap reaped s)"
        using onClientInput_fields(1) [of E self m "reap reaped s"] o by simp
      show ?thesis
      proof (cases res)
        case (Inl e)
        then show ?thesis
          using ev True Message o s2 by (simp add: Let_def reap_connected)
      next
        case (Inr u)
        then have l: "listen_loop E self (ev # evs) s = listen_loop E self evs s2"
          using ev True Message o by (simp add: Let_def)
        have "b \<noteq> self \<or> fst (listen_loop E self evs s2) \<noteq> RecvFailed"
          using Cons.prems unfolding l .
        then have "connected (objects (snd (listen_loop E self evs s2)) b)
                   = connected (objects s2 b)"
          by (rule Cons.IH)
        then show ?thesis unfolding l by (simp add: s2 reap_connected)
      qed
    qed
  qed
qed

lemma kill_emit:
  "Kill p \<in> set (effects (emit e s)) \<longleftrightarrow> e = Kill p \<or> Kill p \<in> set (effects s)"
  by auto

lemma kill_pushStateChange [simp]:
  "Kill p \<in> set (effects (pushStateChange s)) \<longleftrightarrow> Kill p \<in> set (effects s)"
  by (auto simp: pushStateChange_eq)

lemma kill_send [simp]:
  "Kill p \<in> set (effects (send a d s)) \<longleftrightarrow> Kill p \<in> set (effects s)"
  by auto

lemma kill_onClientInput [simp]:
  "Kill p \<in> set (effects (snd (onClientInput E a m s))) \<longleftrightarrow> Kill p \<in> set (effects s)"
  by (auto simp: onClientInput_def resizeTerminal_def split: sum.splits)

lemma kill_waitSubshell [simp]:
  "Kill p \<in> set (effects (snd (waitSubshell a s))) \<longleftrightarrow> Kill p \<in> set (effects s)"
  by (simp add: waitSubshell_def Let_def)

lemma kill_reap [simp]:
  "Kill p \<in> set (effects (reap reaped s)) \<longleftrightarrow> Kill p \<in> set (effects s)"
  unfolding reap_def by (induction reaped arbitrary: s) simp_all

lemma kill_listen_loop:
  "Kill p \<in> set (effects (snd (listen_loop E self evs s))) \<longleftrightarrow> Kill p \<in> set (effects s)"
proof (induction evs arbitrary: s)
  case Nil
  then show ?case by simp
next
  case (Cons ev evs)
  obtain reaped r where ev: "ev = (reaped, r)" by (cases ev)
  show ?case
  proof (cases r)
    case Closed
    then show ?thesis using ev by (simp add: Let_def)
  next
    case (Message m)
    obtain res s2 where o: "onClientInput E self m (reap reaped s) = (res, s2)"
      by (cases "onClientInput E self m (reap reaped s)")
    have s2: "Kill p \<in> set (effects s2) \<longleftrightarrow> Kill p \<in> set (effects s)"
      using kill_onClientInput [of p E self m "reap reaped s"] o by simp
    show ?thesis
      using ev Message o s2 Cons.IH [of s2]
      by (cases res) (simp_all add: Let_def)
  qed
qed

lemma listen_cases:
  "listen E self evs s =
     (let s2 = send self (sessionID (objects s self)) (pushStateChange s)
      in case fst (listen_loop E self evs s2) of
           Escaped e \<Rightarrow> (Raised e, snd (listen_loop E self evs s2))
         | Waiting \<Rightarrow> (Blocked, snd (listen_loop E self evs s2))
         | NotOpen \<Rightarrow> (Returned, pushStateChange (snd (listen_loop E self evs s2)))
         | RecvFailed \<Rightarrow> (Returned, pushStateChange (snd (listen_loop E self evs s2))))"
  unfolding listen_def Let_def
  by (cases "listen_loop E self evs (send self (sessionID (objects (pushStateChange s) self))
                (pushStateChange s))";
      cases "fst (listen_loop E self evs (send self (sessionID (objects (pushStateChange s) self))
                (pushStateChange s)))") simp_all

lemma listen_loop_messages:
  "open (objects s self) \<Longrightarrow> \<forall>m \<in> set ms. \<forall>t. fst (onClientInput E self m t) = Inr () \<Longrightarrow>
   listen_loop E self (map (\<lambda>m. ([], Message m)) ms @ [([], Closed)]) s =
     (RecvFailed, update_object self (\<lambda>t. t\<lparr>connected := False\<rparr>)
                    (fold (\<lambda>m t. snd (onClientInput E self m t)) ms s))"
proof (induction ms arbitrary: s)
  case Nil
  then show ?case by (simp add: reap_def)
next
  case (Cons m ms)
  obtain res s2 where o: "onClientInput E self m s = (res, s2)"
    by (cases "onClientInput E self m s")
  have res: "res = Inr ()" using Cons.prems(2) o by (metis fst_conv list.set_intros(1))
  have "objects s2 = objects s"
    using onClientInput_fields(1) [of E self m s] o by simp
  then have "open (objects s2 self)" using Cons.prems(1) by simp
  then show ?case
    using Cons.IH [of s2] Cons.prems o res by (simp add: reap_def)
qed




section \<open>Routing a terminal connection\<close>

lemma py_in_object:
  "py_in name (JObject ms) = Inr (map_of ms name \<noteq> None)"
  by (simp add: map_of_eq_None_iff)

lemma terminalHandler_object:
  "terminalHandler E ws (JObject ms) evs s =
     (case map_of ms ''sessionID'' of
        None \<Rightarrow> (Returned, emit (Close ws) s)
      | Some v \<Rightarrow>
          if v = JString ''new'' then
            (case generateSessionID (token_bytes4 E) s of
               None \<Rightarrow> (Blocked, s)
             | Some sid \<Rightarrow>
                 listen E (next_obj s) evs
                   (s\<lparr>objects := (objects s)(next_obj s :=
                        \<lparr>sessionID = sid, websocket = ws, open = True, connected = True,
                         subshellPID = fst (pty_fork E), ttyFd = snd (pty_fork E)\<rparr>),
                      next_obj := Suc (next_obj s),
                      terminals := AList.update sid (next_obj s) (terminals s)\<rparr>))
          else
            (case lookup_terminal v s of
               Inl e \<Rightarrow> (Raised e, s)
             | Inr None \<Rightarrow> (Returned, emit (Close ws) s)
             | Inr (Some terminal) \<Rightarrow>
                 if \<not> connected (objects s terminal)
                 then listen E terminal evs (setNewConnection terminal ws s)
                 else (Returned, emit (Close ws) s)))"
  unfolding terminalHandler_def py_in_object
  by (simp add: new_Terminal_eq Let_def split: option.splits)

text \<open>
  A session id that is a JSON array or object cannot be hashed: the membership test
  raises, nothing is closed by the handler and no session is created or attached.
\<close>

lemma terminalHandler_unhashable:
  "map_of ms ''sessionID'' = Some v \<Longrightarrow> (\<exists>xs. v = JArray xs) \<or> (\<exists>xs. v = JObject xs) \<Longrightarrow>
   terminalHandler E ws (JObject ms) evs s = (Raised TypeError, s)"
  by (auto simp: terminalHandler_object)

text \<open>
  C4. For a handshake configuration (a JSON object) on \<^verbatim>\<open>/term\<close>: when \<^verbatim>\<open>sessionID\<close> is the
  string \<^verbatim>\<open>new\<close>, a new \<^verbatim>\<open>Terminal\<close> object with the generated id is constructed for this
  websocket, open and connected, entered into \<^verbatim>\<open>terminals\<close> at the end, and served by
  \<^verbatim>\<open>listen\<close>; when \<^verbatim>\<open>sessionID\<close> is another string that is registered for a terminal that is
  not connected, that terminal gets the websocket by \<^verbatim>\<open>setNewConnection\<close> and is served;
  when the field is missing, or the string is not registered, or it is registered for a
  connected terminal, the websocket is closed and nothing else changes.
\<close>

theorem terminalHandler_routes:
  "(map_of ms ''sessionID'' = Some (JString ''new'')
      \<and> generateSessionID (token_bytes4 E) s = Some sid \<longrightarrow>
      terminalHandler E ws (JObject ms) evs s =
        listen E (next_obj s) evs
          (s\<lparr>objects := (objects s)(next_obj s :=
               \<lparr>sessionID = sid, websocket = ws, open = True, connected = True,
                subshellPID = fst (pty_fork E), ttyFd = snd (pty_fork E)\<rparr>),
             next_obj := Suc (next_obj s),
             terminals := terminals s @ [(sid, next_obj s)]\<rparr>))
   \<and> (map_of ms ''sessionID'' = Some (JString sid) \<and> sid \<noteq> ''new''
      \<and> map_of (terminals s) sid = Some a \<and> \<not> connected (objects s a) \<longrightarrow>
      terminalHandler E ws (JObject ms) evs s = listen E a evs (setNewConnection a ws s))
   \<and> (map_of ms ''sessionID'' = None
      \<or> map_of ms ''sessionID'' = Some (JString sid) \<and> sid \<noteq> ''new''
         \<and> (map_of (terminals s) sid = None
            \<or> map_of (terminals s) sid = Some a \<and> connected (objects s a)) \<longrightarrow>
      terminalHandler E ws (JObject ms) evs s = (Returned, emit (Close ws) s))"
proof (intro conjI impI)
  assume a: "map_of ms ''sessionID'' = Some (JString ''new'')
      \<and> generateSessionID (token_bytes4 E) s = Some sid"
  then have "sid \<notin> fst ` set (terminals s)"
    by (intro generateSessionID_fresh [of "token_bytes4 E"]) simp
  then have "AList.update sid (next_obj s) (terminals s) = terminals s @ [(sid, next_obj s)]"
    by (rule update_fresh)
  then show "terminalHandler E ws (JObject ms) evs s =
        listen E (next_obj s) evs
          (s\<lparr>objects := (objects s)(next_obj s :=
               \<lparr>sessionID = sid, websocket = ws, open = True, connected = True,
                subshellPID = fst (pty_fork E), ttyFd = snd (pty_fork E)\<rparr>),
             next_obj := Suc (next_obj s),
             terminals := terminals s @ [(sid, next_obj s)]\<rparr>)"
    using a by (simp add: terminalHandler_object)
next
  assume "map_of ms ''sessionID'' = Some (JString sid) \<and> sid \<noteq> ''new''
      \<and> map_of (terminals s) sid = Some a \<and> \<not> connected (objects s a)"
  then show "terminalHandler E ws (JObject ms) evs s = listen E a evs (setNewConnection a ws s)"
    by (simp add: terminalHandler_object)
next
  assume "map_of ms ''sessionID'' = None
      \<or> map_of ms ''sessionID'' = Some (JString sid) \<and> sid \<noteq> ''new''
         \<and> (map_of (terminals s) sid = None
            \<or> map_of (terminals s) sid = Some a \<and> connected (objects s a))"
  then show "terminalHandler E ws (JObject ms) evs s = (Returned, emit (Close ws) s)"
    by (auto simp: terminalHandler_object)
qed

theorem terminalHandler_routes_witness:
  "fst (terminalHandler env_example 5
      (JObject [(''accessKey'', JString ''cd''), (''sessionID'', JString ''new'')]) []
      session_example) = Blocked
   \<and> terminals (snd (terminalHandler env_example 5
      (JObject [(''accessKey'', JString ''cd''), (''sessionID'', JString ''new'')]) []
      session_example)) = [(''0a0b0c0d'', 0), (''01020304'', 1)]
   \<and> objects (snd (terminalHandler env_example 5
      (JObject [(''accessKey'', JString ''cd''), (''sessionID'', JString ''new'')]) []
      session_example)) 1 =
       \<lparr>sessionID = ''01020304'', websocket = 5, open = True, connected = True,
        subshellPID = 4343, ttyFd = 8\<rparr>
   \<and> objects (snd (terminalHandler env_example 5
      (JObject [(''accessKey'', JString ''cd''), (''sessionID'', JString ''0a0b0c0d'')]) []
      detached_example)) 0 =
       \<lparr>sessionID = ''0a0b0c0d'', websocket = 5, open = True, connected = True,
        subshellPID = 4242, ttyFd = 7\<rparr>
   \<and> terminalHandler env_example 5
      (JObject [(''accessKey'', JString ''cd''), (''sessionID'', JString ''0a0b0c0d'')]) []
      session_example =
     (Returned, emit (Close 5) session_example)"
proof -
  let ?new = "[(''accessKey'', JString ''cd''), (''sessionID'', JString ''new'')]"
  let ?old = "[(''accessKey'', JString ''cd''), (''sessionID'', JString ''0a0b0c0d'')]"
  have g: "generateSessionID (token_bytes4 env_example) session_example = Some ''01020304''"
    by (simp add: env_example_def session_example_def hexlify_def bytes4_def hexdigit_def)
  have 1: "terminalHandler env_example 5 (JObject ?new) [] session_example =
        listen env_example (next_obj session_example) []
          (session_example\<lparr>objects := (objects session_example)(next_obj session_example :=
               \<lparr>sessionID = ''01020304'', websocket = 5, open = True, connected = True,
                subshellPID = fst (pty_fork env_example), ttyFd = snd (pty_fork env_example)\<rparr>),
             next_obj := Suc (next_obj session_example),
             terminals := terminals session_example @ [(''01020304'', next_obj session_example)]\<rparr>)"
    using terminalHandler_routes
      [where E = env_example and ws = 5 and s = session_example and evs = "[]"
         and ms = ?new and sid = "''01020304''" and a = 0] g
    by simp
  have 2: "terminalHandler env_example 5 (JObject ?old) [] detached_example =
        listen env_example 0 [] (setNewConnection 0 5 detached_example)"
    using terminalHandler_routes
      [where E = env_example and ws = 5 and s = detached_example and evs = "[]"
         and ms = ?old and sid = "''0a0b0c0d''" and a = 0]
    by (simp add: detached_example_def session_example_def)
  have 3: "terminalHandler env_example 5 (JObject ?old) [] session_example =
        (Returned, emit (Close 5) session_example)"
    using terminalHandler_routes
      [where E = env_example and ws = 5 and s = session_example and evs = "[]"
         and ms = ?old and sid = "''0a0b0c0d''" and a = 0]
    by (simp add: session_example_def)
  show ?thesis
    unfolding 1 2 3
    by (simp add: listen_cases Let_def setNewConnection_def detached_example_def
          session_example_def env_example_def)
qed

section \<open>The management channel\<close>

lemma management_request_kill:
  assumes "json_loads E message = Inr (JObject ms)"
    and "map_of ms ''type'' = Some (JString ''kill'')"
    and "map_of ms ''sessionID'' = Some (JString sid)"
  shows "management_request E ws message s =
     (case map_of (terminals s) sid of
        None \<Rightarrow> (Inr (), emit (Send ws (Dumps (kill_response False (JString sid)))) s)
      | Some terminal \<Rightarrow>
          if open (objects s terminal) then
            (Inr (), emit (Send ws (Dumps (kill_response True (JString sid))))
                       (emit (Kill (subshellPID (objects s terminal))) s))
          else (Inr (), emit (Send ws (Dumps (kill_response False (JString sid)))) s))"
proof -
  have "''sessionID'' \<in> fst ` set ms"
    using assms(3) by (metis map_of_eq_None_iff option.distinct(1))
  then show ?thesis
    using assms unfolding management_request_def
    by (simp split: option.splits)
qed

text \<open>
  A session id that is a JSON array or object cannot be hashed: the membership test
  raises, the loop of \<^verbatim>\<open>managementHandler\<close> is left by the exception, and \<^verbatim>\<open>handler\<close> does
  not reach the removal of the websocket from \<^verbatim>\<open>managementConnections\<close>.
\<close>

lemma management_request_unhashable:
  assumes "json_loads E message = Inr (JObject ms)"
    and "map_of ms ''type'' = Some (JString ''kill'')"
    and "map_of ms ''sessionID'' = Some v" and "(\<exists>xs. v = JArray xs) \<or> (\<exists>xs. v = JObject xs)"
  shows "management_request E ws message s = (Inl TypeError, s)"
    and "managementHandler E ws config (([], Message message) # evs) s = (Raised TypeError, s)"
proof -
  have "''sessionID'' \<in> fst ` set ms"
    using assms(3) by (metis map_of_eq_None_iff option.distinct(1))
  then show 1: "management_request E ws message s = (Inl TypeError, s)"
    using assms unfolding management_request_def by auto
  show "managementHandler E ws config (([], Message message) # evs) s = (Raised TypeError, s)"
    by (simp add: reap_def 1)
qed

text \<open>
  C9. A management request \<^verbatim>\<open>{"type":"kill","sessionID":id}\<close> with a string \<open>id\<close>: when \<open>id\<close> is
  registered for an open terminal, SIGTERM is sent to its \<^verbatim>\<open>subshellPID\<close> and then the
  success response is sent on the management websocket; otherwise only the error response
  is sent. In both cases the handler goes on with the next message of the connection.
\<close>

theorem management_kill_responds:
  "json_loads E message = Inr (JObject ms) \<and> map_of ms ''type'' = Some (JString ''kill'')
     \<and> map_of ms ''sessionID'' = Some (JString sid) \<longrightarrow>
   (map_of (terminals s) sid = Some a \<and> open (objects s a) \<longrightarrow>
      management_request E ws message s =
        (Inr (),
         s\<lparr>effects := effects s @
              [Kill (subshellPID (objects s a)),
               Send ws (Dumps (JObject [(''response'', JString ''kill''),
                                        (''result'', JString ''success''),
                                        (''sessionID'', JString sid)]))]\<rparr>))
   \<and> (map_of (terminals s) sid = None
       \<or> map_of (terminals s) sid = Some a \<and> \<not> open (objects s a) \<longrightarrow>
      management_request E ws message s =
        (Inr (),
         s\<lparr>effects := effects s @
              [Send ws (Dumps (JObject [(''response'', JString ''kill''),
                                        (''result'', JString ''error''),
                                        (''sessionID'', JString sid),
                                        (''message'', JString ''sessionID not found'')]))]\<rparr>))
   \<and> managementHandler E ws config ((reaped, Message message) # evs) s =
       managementHandler E ws config evs
         (snd (management_request E ws message (reap reaped s)))"
proof (intro impI)
  assume a: "json_loads E message = Inr (JObject ms) \<and> map_of ms ''type'' = Some (JString ''kill'')
     \<and> map_of ms ''sessionID'' = Some (JString sid)"
  have k: "management_request E ws message t =
     (case map_of (terminals t) sid of
        None \<Rightarrow> (Inr (), emit (Send ws (Dumps (kill_response False (JString sid)))) t)
      | Some terminal \<Rightarrow>
          if open (objects t terminal) then
            (Inr (), emit (Send ws (Dumps (kill_response True (JString sid))))
                       (emit (Kill (subshellPID (objects t terminal))) t))
          else (Inr (), emit (Send ws (Dumps (kill_response False (JString sid)))) t))" for t
    using a management_request_kill [where E = E and message = message and ms = ms
        and sid = sid and ws = ws and s = t] by blast
  have 1: "map_of (terminals s) sid = Some a \<and> open (objects s a) \<longrightarrow>
      management_request E ws message s =
        (Inr (),
         s\<lparr>effects := effects s @
              [Kill (subshellPID (objects s a)),
               Send ws (Dumps (JObject [(''response'', JString ''kill''),
                                        (''result'', JString ''success''),
                                        (''sessionID'', JString sid)]))]\<rparr>)"
    by (simp add: k emit_def kill_response_def)
  have 2: "map_of (terminals s) sid = None
       \<or> map_of (terminals s) sid = Some a \<and> \<not> open (objects s a) \<longrightarrow>
      management_request E ws message s =
        (Inr (),
         s\<lparr>effects := effects s @
              [Send ws (Dumps (JObject [(''response'', JString ''kill''),
                                        (''result'', JString ''error''),
                                        (''sessionID'', JString sid),
                                        (''message'', JString ''sessionID not found'')]))]\<rparr>)"
    by (auto simp: k emit_def kill_response_def)
  have "fst (management_request E ws message (reap reaped s)) = Inr ()"
    by (simp add: k split: option.splits)
  then have 3: "managementHandler E ws config ((reaped, Message message) # evs) s =
       managementHandler E ws config evs
         (snd (management_request E ws message (reap reaped s)))"
    by (cases "management_request E ws message (reap reaped s)") (simp add: Let_def)
  show "(map_of (terminals s) sid = Some a \<and> open (objects s a) \<longrightarrow>
      management_request E ws message s =
        (Inr (),
         s\<lparr>effects := effects s @
              [Kill (subshellPID (objects s a)),
               Send ws (Dumps (JObject [(''response'', JString ''kill''),
                                        (''result'', JString ''success''),
                                        (''sessionID'', JString sid)]))]\<rparr>))
   \<and> (map_of (terminals s) sid = None
       \<or> map_of (terminals s) sid = Some a \<and> \<not> open (objects s a) \<longrightarrow>
      management_request E ws message s =
        (Inr (),
         s\<lparr>effects := effects s @
              [Send ws (Dumps (JObject [(''response'', JString ''kill''),
                                        (''result'', JString ''error''),
                                        (''sessionID'', JString sid),
                                        (''message'', JString ''sessionID not found'')]))]\<rparr>))
   \<and> managementHandler E ws config ((reaped, Message message) # evs) s =
       managementHandler E ws config evs
         (snd (management_request E ws message (reap reaped s)))"
    using 1 2 3 by blast
qed

theorem management_kill_responds_witness:
  "managementHandler env_example 9 JNull
     [([], Message ''{\"type\":\"kill\",\"sessionID\":\"0a0b0c0d\"}''),
      ([], Message ''{\"type\":\"kill\",\"sessionID\":\"ffffffff\"}''),
      ([], Closed)] session_example =
   (Returned,
    session_example\<lparr>effects :=
      [Kill 4242,
       Send 9 (Dumps (JObject [(''response'', JString ''kill''),
                               (''result'', JString ''success''),
                               (''sessionID'', JString ''0a0b0c0d'')])),
       Send 9 (Dumps (JObject [(''response'', JString ''kill''),
                               (''result'', JString ''error''),
                               (''sessionID'', JString ''ffffffff''),
                               (''message'', JString ''sessionID not found'')]))]\<rparr>)"
proof -
  let ?m1 = "''{\"type\":\"kill\",\"sessionID\":\"0a0b0c0d\"}''"
  let ?m2 = "''{\"type\":\"kill\",\"sessionID\":\"ffffffff\"}''"
  let ?s1 = "session_example\<lparr>effects :=
      [Kill 4242,
       Send 9 (Dumps (JObject [(''response'', JString ''kill''),
                               (''result'', JString ''success''),
                               (''sessionID'', JString ''0a0b0c0d'')]))]\<rparr>"
  have 1: "management_request env_example 9 ?m1 session_example = (Inr (), ?s1)"
    and h1: "managementHandler env_example 9 JNull (([], Message ?m1) # evs) session_example =
       managementHandler env_example 9 JNull evs
         (snd (management_request env_example 9 ?m1 (reap [] session_example)))" for evs
    using management_kill_responds
      [where E = env_example and message = ?m1 and s = session_example and ws = 9
         and ms = "[(''type'', JString ''kill''), (''sessionID'', JString ''0a0b0c0d'')]"
         and sid = "''0a0b0c0d''" and a = 0 and reaped = "[]" and config = JNull and evs = evs]
    by (simp_all add: env_example_def loads_example_def session_example_def)
  have 2: "management_request env_example 9 ?m2 ?s1 =
       (Inr (), ?s1\<lparr>effects := effects ?s1 @
              [Send 9 (Dumps (JObject [(''response'', JString ''kill''),
                                       (''result'', JString ''error''),
                                       (''sessionID'', JString ''ffffffff''),
                                       (''message'', JString ''sessionID not found'')]))]\<rparr>)"
    and h2: "managementHandler env_example 9 JNull (([], Message ?m2) # evs) ?s1 =
       managementHandler env_example 9 JNull evs
         (snd (management_request env_example 9 ?m2 (reap [] ?s1)))" for evs
    using management_kill_responds
      [where E = env_example and message = ?m2 and s = ?s1 and ws = 9
         and ms = "[(''type'', JString ''kill''), (''sessionID'', JString ''ffffffff'')]"
         and sid = "''ffffffff''" and a = 0 and reaped = "[]" and config = JNull and evs = evs]
    by (simp_all add: env_example_def loads_example_def session_example_def)
  have r: "reap [] t = t" for t by (simp add: reap_def)
  show ?thesis
    unfolding h1 r 1 snd_conv h2 2
    by (simp add: reap_def session_example_def)
qed

section \<open>The origin check\<close>

text \<open>
  C10. When the opening request has no \<^verbatim>\<open>Origin\<close> header, \<^verbatim>\<open>handler\<close> ends with the
  \<^verbatim>\<open>KeyError\<close> of the header lookup: nothing is closed and the state is untouched. When the
  header is present and not in the allow-list, the websocket is closed and \<^verbatim>\<open>handler\<close>
  returns.
\<close>

theorem handler_origin_lookup:
  "(request_headers ''Origin'' = None \<longrightarrow>
      handler E ws path request_headers evs s = (Raised KeyError, s))
   \<and> (request_headers ''Origin'' = Some origin \<and> origin \<notin> set (allowedOrigins E) \<longrightarrow>
      handler E ws path request_headers evs s = (Returned, emit (Close ws) s))"
  by (simp add: handler_def)

theorem handler_origin_lookup_witness:
  "handler env_example 5 ''/term'' Map.empty
       [([], Message ''{\"accessKey\":\"cd\",\"sessionID\":\"new\"}'')] session_example
     = (Raised KeyError, session_example)
   \<and> handler env_example 5 ''/term'' [''Origin'' \<mapsto> ''http://evil.example'']
       [([], Message ''{\"accessKey\":\"cd\",\"sessionID\":\"new\"}'')] session_example
     = (Returned, emit (Close 5) session_example)
   \<and> allowedOrigins env_example =
       [''http://localhost:9423'', ''https://localhost:9423'',
        ''http://127.0.0.1:9423'', ''https://127.0.0.1:9423'']"
  using handler_origin_lookup
      [where request_headers = Map.empty and E = env_example and ws = 5 and path = "''/term''"
         and evs = "[([], Message ''{\"accessKey\":\"cd\",\"sessionID\":\"new\"}'')]"
         and s = session_example and origin = "''http://evil.example''"]
    handler_origin_lookup
      [where request_headers = "[''Origin'' \<mapsto> ''http://evil.example'']"
         and E = env_example and ws = 5 and path = "''/term''"
         and evs = "[([], Message ''{\"accessKey\":\"cd\",\"sessionID\":\"new\"}'')]"
         and s = session_example and origin = "''http://evil.example''"]
  by (simp add: allowedOrigins_def env_example_def str_def)

section \<open>The reaper and what management callers see\<close>

lemma poll_entries_iff:
  "entry \<in> set (poll_entries s) \<longleftrightarrow>
     (\<exists>sid a. (sid, a) \<in> set (terminals s) \<and> open (objects s a)
        \<and> entry = JObject [(''sessionID'', JString sid),
                           (''connected'', JBool (connected (objects s a)))])"
  by (auto simp: poll_entries_def image_iff)

lemma waitSubshell_registered:
  assumes "sessionID (objects s self) \<in> fst ` set (terminals s)"
  shows "waitSubshell self s =
     (Returned,
      pushStateChange
        (s\<lparr>objects := (objects s)(self := (objects s self)\<lparr>open := False\<rparr>),
           terminals := AList.delete (sessionID (objects s self)) (terminals s)\<rparr>))"
  using assms by (simp add: waitSubshell_def Let_def update_object_def)

text \<open>
  The reaper of a session that is registered when it runs: \<^verbatim>\<open>open\<close> is cleared, the session
  is deleted from \<^verbatim>\<open>terminals\<close>, and the frame then sent to the management connections is
  the poll result of the registry without it.
\<close>

lemma waitSubshell_registered_broadcast:
  assumes "sessionID (objects s self) \<in> fst ` set (terminals s)"
  shows "fst (waitSubshell self s) = Returned"
    and "\<not> open (objects (snd (waitSubshell self s)) self)"
    and "sessionID (objects s self) \<notin> fst ` set (terminals (snd (waitSubshell self s)))"
    and "set (effects (snd (waitSubshell self s))) =
           set (effects s)
           \<union> (\<lambda>w. Send w (Dumps (poll_result (snd (waitSubshell self s)))))
               ` set (managementConnections s)"
    and "JObject [(''sessionID'', JString (sessionID (objects s self))), (''connected'', JBool c)]
           \<notin> set (poll_entries (snd (waitSubshell self s)))"
proof -
  let ?sid = "sessionID (objects s self)"
  let ?t = "s\<lparr>objects := (objects s)(self := (objects s self)\<lparr>open := False\<rparr>),
              terminals := AList.delete ?sid (terminals s)\<rparr>"
  have w: "waitSubshell self s = (Returned, pushStateChange ?t)"
    using assms by (rule waitSubshell_registered)
  have p: "poll_entries (pushStateChange ?t) = poll_entries ?t"
    by (rule poll_entries_cong) simp_all
  have pr: "poll_result (pushStateChange ?t) = poll_result ?t"
    by (simp add: poll_result_def p)
  have keys: "?sid \<notin> fst ` set (terminals ?t)"
    by (auto simp: AList.delete_eq)
  show "fst (waitSubshell self s) = Returned" by (simp add: w)
  show "\<not> open (objects (snd (waitSubshell self s)) self)" by (simp add: w)
  show "?sid \<notin> fst ` set (terminals (snd (waitSubshell self s)))"
    using keys by (simp add: w)
  have e1: "set (effects (pushStateChange ?t)) =
        set (effects s) \<union> (\<lambda>w. Send w (Dumps (poll_result ?t))) ` set (managementConnections s)"
    by (simp add: pushStateChange_eq)
  show "set (effects (snd (waitSubshell self s))) =
           set (effects s)
           \<union> (\<lambda>w. Send w (Dumps (poll_result (snd (waitSubshell self s)))))
               ` set (managementConnections s)"
    unfolding w snd_conv pr by (rule e1)
  show "JObject [(''sessionID'', JString ?sid), (''connected'', JBool c)]
             \<notin> set (poll_entries (snd (waitSubshell self s)))"
    using keys by (force simp: w p poll_entries_iff)
qed

text \<open>
  C6. The reaper thread is started by \<^verbatim>\<open>startTty\<close>, in the constructor, and
  \<^verbatim>\<open>terminalHandler\<close> registers the terminal only after the constructor has returned. When
  the shell of the new session \<^verbatim>\<open>01020304\<close> (object 1) exits at once and its reaper runs
  before the registration, \<^verbatim>\<open>waitSubshell\<close> clears \<^verbatim>\<open>open\<close> and then ends by the \<^verbatim>\<open>KeyError\<close>
  of the deletion: it deletes nothing and sends no frame. The registration that follows
  enters the terminal, whose \<^verbatim>\<open>open\<close> is false, into \<^verbatim>\<open>terminals\<close>, and the session stays
  registered after its peer has been served and has gone. The poll entries leave the session out, since they list open terminals only.
\<close>

theorem reap_before_registration:
  "new_Terminal ''01020304'' 5 (4343, 8) session_example = (1, snd early_started)
   \<and> fst early_reaped = Raised KeyError
   \<and> effects (snd early_reaped) = effects session_example
   \<and> terminals (snd early_reaped) = terminals session_example
   \<and> terminals early_registered = [(''0a0b0c0d'', 0), (''01020304'', 1)]
   \<and> \<not> open (objects early_registered 1)
   \<and> poll_entries early_registered =
        [JObject [(''sessionID'', JString ''0a0b0c0d''), (''connected'', JBool True)]]
   \<and> fst (listen env_example 1 [([], Closed)] early_registered) = Returned
   \<and> terminals (snd (listen env_example 1 [([], Closed)] early_registered))
        = [(''0a0b0c0d'', 0), (''01020304'', 1)]
   \<and> \<not> open (objects (snd (listen env_example 1 [([], Closed)] early_registered)) 1)"
  by (simp add: early_started_def early_reaped_def early_registered_def new_Terminal_eq
        waitSubshell_def Let_def update_object_def poll_entries_def
        listen_cases send_def emit_def pushStateChange_eq poll_result_def
        session_example_def)

text \<open>The invariant of the registry holds before that create and not after it.\<close>

lemma early_reap_breaks_registry_ok:
  "registry_ok session_example \<and> \<not> registry_ok early_registered"
  by (simp add: early_started_def early_reaped_def early_registered_def new_Terminal_eq
        waitSubshell_def Let_def update_object_def registry_ok_def session_example_def)

section \<open>Session ids\<close>

lemma hexdigit_lower: "hexdigit n \<in> set ''0123456789abcdef''"
proof -
  have "n mod 16 < length ''0123456789abcdef''" by simp
  then show ?thesis unfolding hexdigit_def by (rule nth_mem)
qed

lemma hexlify_length: "length (hexlify bs) = 2 * length bs"
  by (induction bs) (simp_all add: hexlify_def)

lemma hexlify_lower: "set (hexlify bs) \<subseteq> set ''0123456789abcdef''"
proof
  fix c assume "c \<in> set (hexlify bs)"
  then obtain n where "c = hexdigit n"
    by (auto simp: hexlify_def)
  then show "c \<in> set ''0123456789abcdef''"
    using hexdigit_lower by simp
qed

lemma generateSessionID_drawn:
  "generateSessionID draws s = Some sid \<Longrightarrow> \<exists>w \<in> set draws. sid = hexlify (bytes4 w)"
  by (induction draws) (auto simp: Let_def split: if_splits)

lemma generateSessionID_returns:
  "\<exists>w \<in> set draws. hexlify (bytes4 w) \<notin> fst ` set (terminals s) \<Longrightarrow>
   \<exists>sid. generateSessionID draws s = Some sid"
  by (induction draws) (auto simp: Let_def)

lemma registry_ok_ids:
  assumes "registry_ok s" "(sid1, a1) \<in> set (terminals s)" "(sid2, a2) \<in> set (terminals s)"
    and "a1 \<noteq> a2"
  shows "sid1 \<noteq> sid2"
proof
  assume "sid1 = sid2"
  moreover have "distinct (map fst (terminals s))"
    using assms(1) by (simp add: registry_ok_def)
  ultimately have "a1 = a2"
    using assms(2,3) by (metis eq_key_imp_eq_value)
  then show False using assms(4) by simp
qed



section \<open>The output thread\<close>

lemma only_sends_refl [simp]: "only_sends s s"
  by (simp add: only_sends_def)

lemma only_sends_trans: "only_sends s t \<Longrightarrow> only_sends t u \<Longrightarrow> only_sends s u"
  unfolding only_sends_def by (metis Un_iff append.assoc set_append)

lemma only_sends_send: "only_sends s (send a d s)"
  by (simp add: only_sends_def)

lemma only_sends_waitSubshell: "only_sends s (snd (waitSubshell a s))"
  by (auto simp: only_sends_def waitSubshell_def Let_def pushStateChange_eq)

lemma only_sends_reap: "only_sends s (reap reaped s)"
  unfolding reap_def
proof (induction reaped arbitrary: s)
  case Nil
  then show ?case by simp
next
  case (Cons a reaped)
  show ?case
    using only_sends_waitSubshell [of s a] Cons [of "snd (waitSubshell a s)"]
    by (simp add: only_sends_trans)
qed

lemma pushTtyOutput_step:
  "open (objects s self) \<Longrightarrow>
   pushTtyOutput decode self ((reaped, r) # evs) s =
     (case r of
        None \<Rightarrow> pushTtyOutput decode self evs (reap reaped s)
      | Some ttyOutput \<Rightarrow>
          (case decode ttyOutput of
             Inl e \<Rightarrow> pushTtyOutput decode self evs (reap reaped s)
           | Inr decoded \<Rightarrow> pushTtyOutput decode self evs (send self decoded (reap reaped s))))"
  by (simp add: Let_def)

lemma pushTtyOutput_closed:
  "\<not> open (objects s self) \<Longrightarrow> pushTtyOutput decode self evs s = (Returned, s)"
  by (cases evs) auto

lemma pushTtyOutput_end:
  "(fst (pushTtyOutput decode self evs s) = Returned
      \<and> \<not> open (objects (snd (pushTtyOutput decode self evs s)) self)
    \<or> fst (pushTtyOutput decode self evs s) = Blocked
      \<and> open (objects (snd (pushTtyOutput decode self evs s)) self))
   \<and> only_sends s (snd (pushTtyOutput decode self evs s))"
proof (induction evs arbitrary: s)
  case Nil
  then show ?case by simp
next
  case (Cons ev evs)
  obtain reaped r where ev: "ev = (reaped, r)" by (cases ev)
  show ?case
  proof (cases "open (objects s self)")
    case False
    then show ?thesis by (simp add: pushTtyOutput_closed)
  next
    case True
    have r1: "only_sends s (reap reaped s)" by (rule only_sends_reap)
    have r2: "only_sends s (send self d (reap reaped s))" for d
      using r1 only_sends_send by (rule only_sends_trans)
    show ?thesis
      unfolding ev pushTtyOutput_step [OF True]
      using Cons.IH [of "reap reaped s"] Cons.IH [of "send self d (reap reaped s)" for d] r1 r2
      by (auto split: option.splits sum.splits intro: only_sends_trans)
  qed
qed

text \<open>
  The output thread does nothing to the outside world but schedule sends (the reapers
  that run meanwhile push state changes): no descriptor is closed by it.
\<close>

lemma pushTtyOutput_only_sends:
  "only_sends s (snd (pushTtyOutput decode self evs s))"
  using pushTtyOutput_end [of decode self evs s] by blast

text \<open>
  C7, as the code has it. \<^verbatim>\<open>pushTtyOutput\<close> never ends by an exception. While \<^verbatim>\<open>open\<close> is
  true at the head of the loop, a read that fails and a chunk that does not decode are
  dropped and the next read follows; a chunk that decodes is handed to \<^verbatim>\<open>send\<close> for the
  current websocket, whether or not \<^verbatim>\<open>connected\<close> is set, and the next read follows. The
  thread has returned exactly when \<^verbatim>\<open>open\<close> is false at the end of the run, and it returns
  at once when \<^verbatim>\<open>open\<close> is false at the head of the loop.
\<close>

theorem pushTtyOutput_runs_while_open:
  "fst (pushTtyOutput decode self evs s) \<noteq> Raised e
   \<and> (fst (pushTtyOutput decode self evs s) = Returned
        \<longleftrightarrow> \<not> open (objects (snd (pushTtyOutput decode self evs s)) self))
   \<and> (\<not> open (objects s self) \<longrightarrow> pushTtyOutput decode self evs s = (Returned, s))
   \<and> (open (objects s self) \<longrightarrow>
        pushTtyOutput decode self ((reaped, None) # evs) s
          = pushTtyOutput decode self evs (reap reaped s)
        \<and> (decode ttyOutput = Inl e \<longrightarrow>
             pushTtyOutput decode self ((reaped, Some ttyOutput) # evs) s
               = pushTtyOutput decode self evs (reap reaped s))
        \<and> (decode ttyOutput = Inr decoded \<longrightarrow>
             pushTtyOutput decode self ((reaped, Some ttyOutput) # evs) s
               = pushTtyOutput decode self evs (send self decoded (reap reaped s))))"
proof (intro conjI impI)
  show "fst (pushTtyOutput decode self evs s) \<noteq> Raised e"
    using pushTtyOutput_end [of decode self evs s] by auto
  show "fst (pushTtyOutput decode self evs s) = Returned
        \<longleftrightarrow> \<not> open (objects (snd (pushTtyOutput decode self evs s)) self)"
    using pushTtyOutput_end [of decode self evs s] by auto
next
  assume "\<not> open (objects s self)"
  then show "pushTtyOutput decode self evs s = (Returned, s)"
    by (rule pushTtyOutput_closed)
next
  assume o: "open (objects s self)"
  show "pushTtyOutput decode self ((reaped, None) # evs) s
          = pushTtyOutput decode self evs (reap reaped s)"
    using o by (simp add: Let_def)
  { assume "decode ttyOutput = Inl e"
    then show "pushTtyOutput decode self ((reaped, Some ttyOutput) # evs) s
               = pushTtyOutput decode self evs (reap reaped s)"
      using o by (simp add: Let_def) }
  { assume "decode ttyOutput = Inr decoded"
    then show "pushTtyOutput decode self ((reaped, Some ttyOutput) # evs) s
               = pushTtyOutput decode self evs (send self decoded (reap reaped s))"
      using o by (simp add: Let_def) }
qed

theorem pushTtyOutput_runs_while_open_witness:
  "pushTtyOutput decode_example 0
      [([], Some [255]), ([], Some [111, 117, 116]), ([0], None), ([], Some [111, 117, 116])]
      detached_example =
   (Returned,
    detached_example\<lparr>objects := (objects detached_example)
         (0 := (objects detached_example 0)\<lparr>open := False\<rparr>),
       terminals := [],
       effects := [Send 1 (Text ''out''),
                   Send 9 (Dumps (JObject [(''response'', JString ''poll''),
                                           (''result'', JArray [])]))]\<rparr>)"
proof -
  have o: "open (objects detached_example 0)"
    by (simp add: detached_example_def session_example_def)
  have o': "open (objects (send 0 ''out'' detached_example) 0)"
    using o by simp
  have r: "reap [] t = t" for t by (simp add: reap_def)
  have c: "\<not> open (objects (reap [0] (send 0 ''out'' detached_example)) 0)"
    by (simp add: reap_def waitSubshell_def Let_def)
  note t1 = pushTtyOutput_runs_while_open
      [where decode = decode_example and self = 0 and s = detached_example and reaped = "[]"
         and ttyOutput = "[255]" and e = UnicodeDecodeError and decoded = "''out''"]
  note t2 = pushTtyOutput_runs_while_open
      [where decode = decode_example and self = 0 and s = detached_example and reaped = "[]"
         and ttyOutput = "[111, 117, 116]" and e = UnicodeDecodeError and decoded = "''out''"]
  note t3 = pushTtyOutput_runs_while_open
      [where decode = decode_example and self = 0 and s = "send 0 ''out'' detached_example"
         and reaped = "[0]" and ttyOutput = "[255]" and e = UnicodeDecodeError
         and decoded = "''out''"]
  note t4 = pushTtyOutput_runs_while_open
      [where decode = decode_example and self = 0
         and s = "reap [0] (send 0 ''out'' detached_example)"
         and evs = "[([], Some [111, 117, 116])]"
         and reaped = "[]" and ttyOutput = "[255]" and e = UnicodeDecodeError
         and decoded = "''out''"]
  have "pushTtyOutput decode_example 0
      [([], Some [255]), ([], Some [111, 117, 116]), ([0], None), ([], Some [111, 117, 116])]
      detached_example =
    pushTtyOutput decode_example 0
      [([], Some [111, 117, 116]), ([0], None), ([], Some [111, 117, 116])] detached_example"
    using t1 o by (simp add: decode_example_def r)
  also have "\<dots> = pushTtyOutput decode_example 0
      [([0], None), ([], Some [111, 117, 116])] (send 0 ''out'' detached_example)"
    using t2 o by (simp add: decode_example_def r)
  also have "\<dots> = pushTtyOutput decode_example 0
      [([], Some [111, 117, 116])] (reap [0] (send 0 ''out'' detached_example))"
    using t3 o' by simp
  also have "\<dots> = (Returned, reap [0] (send 0 ''out'' detached_example))"
    using t4 c by blast
  also have "reap [0] (send 0 ''out'' detached_example) =
    detached_example\<lparr>objects := (objects detached_example)
         (0 := (objects detached_example 0)\<lparr>open := False\<rparr>),
       terminals := [],
       effects := [Send 1 (Text ''out''),
                   Send 9 (Dumps (JObject [(''response'', JString ''poll''),
                                           (''result'', JArray [])]))]\<rparr>"
    by (simp add: reap_def waitSubshell_def Let_def send_def emit_def update_object_def
          pushStateChange_eq poll_result_def poll_entries_def AList.delete_eq
          detached_example_def session_example_def)
  finally show ?thesis .
qed

text \<open>
  C7 as stated fails. Two reads in a row report the PTY closed and the thread has not
  terminated: it is in its third read. And with the reaper run during a read that
  returns data, the thread sends the data and terminates although no read reported the
  PTY closed.
\<close>

theorem pushTtyOutput_ignores_pty_closed:
  "pushTtyOutput decode_example 0 [([], None), ([], None)] session_example
     = (Blocked, session_example)
   \<and> fst (pushTtyOutput decode_example 0 [([0], Some [111, 117, 116])] session_example)
     = Returned
   \<and> frames_to 1 (snd (pushTtyOutput decode_example 0 [([0], Some [111, 117, 116])]
                          session_example)) = [Text ''out'']"
  by (simp add: reap_def waitSubshell_def Let_def send_def emit_def update_object_def
        pushStateChange_eq poll_result_def poll_entries_def AList.delete_eq
        session_example_def decode_example_def frames_to_def)

section \<open>The greeting and the output thread\<close>

text \<open>
  C5. The output thread is started by \<^verbatim>\<open>startTty\<close>, in the constructor, and keeps running
  while the session is detached; the greeting is sent later, at the start of \<^verbatim>\<open>listen\<close>.
  On a reattach, when the thread reads the chunk \<^verbatim>\<open>out\<close> after \<^verbatim>\<open>setNewConnection\<close> has
  stored the new websocket 5 and before \<^verbatim>\<open>listen\<close> runs, the frames scheduled for
  websocket 5 are the chunk and then the session id. The same holds on a create, when the
  thread reads a chunk between the constructor and \<^verbatim>\<open>listen\<close>. With no step of the output
  thread in between, the session id is the first frame.
\<close>

theorem output_before_greeting:
  "frames_to 5
     (snd (listen env_example 0 []
        (snd (pushTtyOutput decode_example 0 [([], Some [111, 117, 116])]
           (setNewConnection 0 5 detached_example)))))
     = [Text ''out'', Text ''0a0b0c0d'']
   \<and> frames_to 5
     (snd (listen env_example 1 []
        ((\<lambda>t. t\<lparr>terminals := AList.update ''01020304'' 1 (terminals t)\<rparr>)
           (snd (pushTtyOutput decode_example 1 [([], Some [111, 117, 116])]
              (snd (new_Terminal ''01020304'' 5 (4343, 8) session_example)))))))
     = [Text ''out'', Text ''01020304'']
   \<and> frames_to 5
     (snd (terminalHandler env_example 5
        (JObject [(''accessKey'', JString ''cd''), (''sessionID'', JString ''0a0b0c0d'')]) []
        detached_example))
     = [Text ''0a0b0c0d'']"
  by (simp add: listen_cases terminalHandler_object new_Terminal_eq setNewConnection_def
        send_def emit_def update_object_def pushStateChange_eq poll_result_def
        poll_entries_def reap_def Let_def frames_to_def decode_example_def
        detached_example_def session_example_def env_example_def)

section \<open>A whole connection\<close>

text \<open>
  The run of the scenario: the first draw collides with the registered session, the
  second gives the id; the greeting follows the pushed state change, the keystrokes are
  written to the new PTY, and after the disconnect the session is listed as not
  connected. The key is consumed: a second handshake with it is closed.
\<close>

lemma new_session_run_result:
  "fst new_session_run = Returned
   \<and> terminals (snd new_session_run) = [(''0a0b0c0d'', 0), (''01020304'', 1)]
   \<and> objects (snd new_session_run) 1 =
        \<lparr>sessionID = ''01020304'', websocket = 5, open = True, connected = False,
         subshellPID = 4343, ttyFd = 8\<rparr>
   \<and> effects (snd new_session_run) =
        [Send 9 (Dumps (JObject
           [(''response'', JString ''poll''),
            (''result'', JArray
               [JObject [(''sessionID'', JString ''0a0b0c0d''), (''connected'', JBool True)],
                JObject [(''sessionID'', JString ''01020304''), (''connected'', JBool True)]])])),
         Send 5 (Text ''01020304''),
         Write 8 ''ls'',
         Send 9 (Dumps (JObject
           [(''response'', JString ''poll''),
            (''result'', JArray
               [JObject [(''sessionID'', JString ''0a0b0c0d''), (''connected'', JBool True)],
                JObject [(''sessionID'', JString ''01020304''), (''connected'', JBool False)]])]))]
   \<and> accessKeys (snd new_session_run) ''cd'' = None"
  by (simp add: new_session_run_def handler_def allowedOrigins_def str_def env_example_def
        loads_example_def validateAccessKey_string Let_def reap_def terminalHandler_object
        listen_cases session_example_def hexlify_def bytes4_def hexdigit_def onClientInput_def
        send_def emit_def pushStateChange_eq poll_result_def poll_entries_def update_object_def)

lemma replayed_key_is_closed:
  "fst (handler env_example 6 ''/term'' [''Origin'' \<mapsto> ''http://localhost:9423'']
          [([], Message ''{\"accessKey\":\"cd\",\"sessionID\":\"new\"}'')] (snd new_session_run))
     = Returned
   \<and> effects (snd (handler env_example 6 ''/term'' [''Origin'' \<mapsto> ''http://localhost:9423'']
          [([], Message ''{\"accessKey\":\"cd\",\"sessionID\":\"new\"}'')] (snd new_session_run)))
     = effects (snd new_session_run) @ [Close 6]
   \<and> terminals (snd (handler env_example 6 ''/term'' [''Origin'' \<mapsto> ''http://localhost:9423'']
          [([], Message ''{\"accessKey\":\"cd\",\"sessionID\":\"new\"}'')] (snd new_session_run)))
     = terminals (snd new_session_run)"
proof -
  have k: "accessKeys (snd new_session_run) ''cd'' = None"
    using new_session_run_result by blast
  show ?thesis
    using k
    by (simp add: handler_def allowedOrigins_def str_def env_example_def loads_example_def
          validateAccessKey_string Let_def reap_def)
qed

end
